theory Spec2Isabelle
  imports Complex_Main
begin

section \<open>Training-record identities and the persistence check\<close>

text \<open>
  Embedding of \<^verbatim>\<open>is_grid_processed\<close> (create.py). The directory \<^verbatim>\<open>process_path\<close>
  is a finite map from a file name (relative to that directory) to the \<^verbatim>\<open>train_id\<close>
  attribute of the record that \<^verbatim>\<open>torch.load\<close> returns for the file. A name outside the
  domain is a path for which \<^verbatim>\<open>is_file()\<close> is false.
\<close>

type_synonym store = "string \<rightharpoonup> string"

text \<open>The grid identifier is a \<^verbatim>\<open>str\<close> or an \<^verbatim>\<open>int\<close>; the group identifier may be \<^verbatim>\<open>None\<close>.\<close>

datatype grid_id = GridStr string | GridInt int

definition digit_char :: "nat \<Rightarrow> char" where
  "digit_char d = ''0123456789'' ! d"

fun str_nat :: "nat \<Rightarrow> string" where
  "str_nat n = (if n < 10 then [digit_char n] else str_nat (n div 10) @ [digit_char (n mod 10)])"

declare str_nat.simps [simp del]

definition str_int :: "int \<Rightarrow> string" where
  "str_int i = (if i < 0 then CHR ''-'' # str_nat (nat (- i)) else str_nat (nat i))"

fun str_grid :: "grid_id \<Rightarrow> string" where
  "str_grid (GridStr s) = s"
| "str_grid (GridInt i) = str_int i"

fun str_group :: "string option \<Rightarrow> string" where
  "str_group None = ''None''"
| "str_group (Some s) = s"

text \<open>The format \<^verbatim>\<open>{i:03d}\<close> for an index of \<^verbatim>\<open>range(0, n_ts)\<close>.\<close>

definition fmt_03d :: "nat \<Rightarrow> string" where
  "fmt_03d i = (let s = str_nat i in replicate (3 - length s) CHR ''0'' @ s)"

definition startswith :: "string \<Rightarrow> string \<Rightarrow> bool" where
  "startswith s p = (take (length p) s = p)"

definition train_id_ts :: "string option \<Rightarrow> grid_id \<Rightarrow> string \<Rightarrow> nat \<Rightarrow> string" where
  "train_id_ts group_id grid aug i =
     str_group group_id @ ''_'' @ str_grid grid @ ''_'' @ aug @ ''_'' @ fmt_03d i"

definition train_id_plain :: "string option \<Rightarrow> grid_id \<Rightarrow> string \<Rightarrow> string" where
  "train_id_plain group_id grid aug = str_group group_id @ ''_'' @ str_grid grid @ ''_'' @ aug"

definition train_path :: "string \<Rightarrow> string" where
  "train_path train_id = ''data_'' @ train_id @ ''.pt''"

text \<open>
  The test made for one identity: the file exists and the loaded record carries the
  same \<^verbatim>\<open>train_id\<close>.
\<close>

definition record_matches :: "store \<Rightarrow> string \<Rightarrow> bool" where
  "record_matches fs train_id =
     (case fs (train_path train_id) of None \<Rightarrow> False | Some tid \<Rightarrow> tid = train_id)"

text \<open>The inner loop \<^verbatim>\<open>for i in range(0, n_ts)\<close>, threading \<^verbatim>\<open>batch_stored\<close>.\<close>

fun ts_loop :: "store \<Rightarrow> string option \<Rightarrow> grid_id \<Rightarrow> string \<Rightarrow> nat list \<Rightarrow> bool \<Rightarrow> bool" where
  "ts_loop fs group_id grid aug [] batch_stored = batch_stored"
| "ts_loop fs group_id grid aug (i # is) batch_stored =
     ts_loop fs group_id grid aug is
       (if record_matches fs (train_id_ts group_id grid aug i) then True else batch_stored)"

text \<open>The outer loop \<^verbatim>\<open>for aug in transforms\<close>.\<close>

fun aug_loop :: "store \<Rightarrow> string list \<Rightarrow> string option \<Rightarrow> grid_id \<Rightarrow> int \<Rightarrow> bool \<Rightarrow> bool" where
  "aug_loop fs [] group_id grid n_ts batch_stored = batch_stored"
| "aug_loop fs (aug # augs) group_id grid n_ts batch_stored =
     aug_loop fs augs group_id grid n_ts
       (if startswith aug ''ts-''
        then ts_loop fs group_id grid aug [0..<nat n_ts] batch_stored
        else if record_matches fs (train_id_plain group_id grid aug) then True
        else batch_stored)"

definition is_grid_processed :: "store \<Rightarrow> string list \<Rightarrow> string option \<Rightarrow> grid_id \<Rightarrow> int \<Rightarrow> bool" where
  "is_grid_processed fs transforms group_id grid n_ts =
     aug_loop fs transforms group_id grid n_ts False"




section \<open>Two-dimensional arrays and the numpy operations the pipeline uses\<close>

text \<open>
  A two-dimensional array is the list of its rows. Label values are integers (the dtype
  of the label array is inherited from the rasteriser and is not fixed in create.py);
  image values are idealised as reals. \<^verbatim>\<open>has_shape h w a\<close> says that \<^verbatim>\<open>a\<close> has
  \<^verbatim>\<open>h\<close> rows of \<^verbatim>\<open>w\<close> entries each.
\<close>

type_synonym 'a arr2 = "'a list list"

text \<open>
  \<^verbatim>\<open>NotEmbedded\<close> marks inputs on which the behaviour of the source depends on numpy
  broadcasting or on the numpy version, which this embedding does not cover.
\<close>

datatype np_error = IndexError | ValueError | NotEmbedded

definition CROP_CLASS :: int where "CROP_CLASS = 1"

definition EDGE_CLASS :: int where "EDGE_CLASS = 2"

definition has_shape :: "nat \<Rightarrow> nat \<Rightarrow> 'a arr2 \<Rightarrow> bool" where
  "has_shape h w a = (length a = h \<and> list_all (\<lambda>r. length r = w) a)"

text \<open>\<^verbatim>\<open>np.pad(a, ((k, k), (k, k)), mode='edge')\<close>, for an array without an empty axis.\<close>

definition pad_edge :: "nat \<Rightarrow> 'a list \<Rightarrow> 'a list" where
  "pad_edge k xs = replicate k (hd xs) @ xs @ replicate k (last xs)"

definition np_pad_edge :: "nat \<Rightarrow> 'a arr2 \<Rightarrow> 'a arr2" where
  "np_pad_edge k a = pad_edge k (map (pad_edge k) a)"

text \<open>
  \<^verbatim>\<open>np.roll\<close> along one axis: the entry at index \<^verbatim>\<open>i\<close> moves to index
  \<^verbatim>\<open>(i + s) mod n\<close>. The shift and axis arguments are an integer and an axis, or a pair
  of integers for the axes \<^verbatim>\<open>(0, 1)\<close>.
\<close>

definition np_roll1 :: "int \<Rightarrow> 'a list \<Rightarrow> 'a list" where
  "np_roll1 s xs = rotate (nat ((- s) mod int (length xs))) xs"

datatype roll_spec = Axis0 int | Axis1 int | Axes01 int int

fun np_roll :: "'a arr2 \<Rightarrow> roll_spec \<Rightarrow> 'a arr2" where
  "np_roll a (Axis0 s) = np_roll1 s a"
| "np_roll a (Axis1 s) = map (np_roll1 s) a"
| "np_roll a (Axes01 s0 s1) = map (np_roll1 s1) (np_roll1 s0 a)"

text \<open>The slice \<^verbatim>\<open>[1:-1]\<close> of one axis, and \<^verbatim>\<open>[1:-1, 1:-1]\<close>.\<close>

definition slice_inner :: "'a list \<Rightarrow> 'a list" where
  "slice_inner xs = butlast (tl xs)"

definition inner2 :: "'a arr2 \<Rightarrow> 'a arr2" where
  "inner2 a = map slice_inner (slice_inner a)"

text \<open>\<^verbatim>\<open>roll\<close> of create.py: rolls the padded array and slices the padding off.\<close>

definition roll :: "'a arr2 \<Rightarrow> roll_spec \<Rightarrow> 'a arr2" where
  "roll arr_pad sh = inner2 (np_roll arr_pad sh)"

text \<open>Elementwise operations and the sum of a stack of arrays along its first axis.\<close>

definition where_pos :: "int arr2 \<Rightarrow> int arr2" where
  "where_pos a = map (map (\<lambda>x. if x > 0 then 1 else 0)) a"

definition where_eq :: "int arr2 \<Rightarrow> int arr2 \<Rightarrow> int arr2" where
  "where_eq a b = map2 (map2 (\<lambda>x y. if x = y then 1 else 0)) a b"

definition add2 :: "int arr2 \<Rightarrow> int arr2 \<Rightarrow> int arr2" where
  "add2 a b = map2 (map2 (+)) a b"

definition mul2 :: "int arr2 \<Rightarrow> int arr2 \<Rightarrow> int arr2" where
  "mul2 a b = map2 (map2 (*)) a b"

definition sum_axis0 :: "int arr2 list \<Rightarrow> int arr2" where
  "sum_axis0 out = foldl add2 (hd out) (tl out)"

text \<open>
  \<^verbatim>\<open>arr.squeeze()\<close> returns a two-dimensional array unchanged exactly when both axes
  are longer than one. Otherwise the first entry of \<^verbatim>\<open>out\<close> loses an axis and
  \<^verbatim>\<open>np.array(out)\<close> is no longer a stack of equal shapes.
\<close>

definition squeeze_keeps_2d :: "'a arr2 \<Rightarrow> bool" where
  "squeeze_keeps_2d a =
     (2 \<le> length a \<and> 2 \<le> length (hd a) \<and> list_all (\<lambda>r. length r = length (hd a)) a)"

section \<open>Focal operators and the edge detector's masks\<close>

text \<open>\<^verbatim>\<open>focal_compare\<close> (create.py, lines 59 to 75).\<close>

definition focal_compare :: "int arr2 \<Rightarrow> np_error + int arr2" where
  "focal_compare arr =
     (if \<not> squeeze_keeps_2d arr then Inl NotEmbedded
      else
        let out0 = where_pos arr;
            arr_pad = np_pad_edge 1 arr;
            out = [out0,
                   where_eq (roll arr_pad (Axis0 1)) arr,
                   where_eq (roll arr_pad (Axis0 (- 1))) arr,
                   where_eq (roll arr_pad (Axis1 1)) arr,
                   where_eq (roll arr_pad (Axis1 (- 1))) arr,
                   where_eq (roll arr_pad (Axes01 1 1)) arr,
                   where_eq (roll arr_pad (Axes01 1 (- 1))) arr,
                   where_eq (roll arr_pad (Axes01 (- 1) 1)) arr,
                   where_eq (roll arr_pad (Axes01 (- 1) (- 1))) arr]
        in Inr (mul2 (sum_axis0 out) (hd out)))"

text \<open>
  \<^verbatim>\<open>focal_stat\<close> (lines 78 to 94) at \<^verbatim>\<open>stat='sum'\<close>, the only statistic the pipeline
  requests. A boolean input array is given as its 0/1 indicator.
\<close>

definition focal_stat_sum :: "int arr2 \<Rightarrow> np_error + int arr2" where
  "focal_stat_sum arr =
     (if \<not> squeeze_keeps_2d arr then Inl NotEmbedded
      else
        let arr_pad = np_pad_edge 1 arr;
            out = [arr,
                   roll arr_pad (Axis0 1),
                   roll arr_pad (Axis0 (- 1)),
                   roll arr_pad (Axis1 1),
                   roll arr_pad (Axis1 (- 1)),
                   roll arr_pad (Axes01 1 1),
                   roll arr_pad (Axes01 1 (- 1)),
                   roll arr_pad (Axes01 (- 1) 1),
                   roll arr_pad (Axes01 (- 1) (- 1))]
        in Inr (sum_axis0 out))"

text \<open>
  The edge-candidate mask of \<^verbatim>\<open>create_image_vars\<close> (line 358):
  \<^verbatim>\<open>np.uint8((edge_compare_sum > 0) & (edge_compare_sum < 8))\<close>.
\<close>

definition edge_candidates :: "int arr2 \<Rightarrow> int arr2" where
  "edge_candidates edge_compare_sum =
     map (map (\<lambda>s. if s > 0 \<and> s < 8 then 1 else 0)) edge_compare_sum"

text \<open>
  The fragment clean-up of \<^verbatim>\<open>create_image_vars\<close> (lines 371 to 376): the focal sum of
  \<^verbatim>\<open>labels_array == CROP_CLASS\<close>, then the nested \<^verbatim>\<open>np.where\<close>.
\<close>

definition crop_indicator :: "int arr2 \<Rightarrow> int arr2" where
  "crop_indicator labels_array = map (map (\<lambda>x. if x = CROP_CLASS then 1 else 0)) labels_array"

definition fragment_cleanup :: "int arr2 \<Rightarrow> np_error + int arr2" where
  "fragment_cleanup labels_array =
     (case focal_stat_sum (crop_indicator labels_array) of
        Inl e \<Rightarrow> Inl e
      | Inr frag_sum \<Rightarrow>
          Inr (map2 (map2 (\<lambda>s l. if s < 2 then 0 else if s < 4 then EDGE_CLASS else l))
                 frag_sum labels_array))"

text \<open>
  The reference description of a 3 x 3 neighbourhood with edge padding: the eight
  neighbours of pixel \<^verbatim>\<open>(i, j)\<close>, each index clamped to the array, their number equal to
  the centre, and the sum over the window that also holds the centre.
\<close>

definition clamp_idx :: "nat \<Rightarrow> int \<Rightarrow> nat \<Rightarrow> nat" where
  "clamp_idx n d i = nat (max 0 (min (int n - 1) (int i + d)))"

definition neighbour_offsets :: "(int \<times> int) list" where
  "neighbour_offsets = [(- 1, 0), (1, 0), (0, - 1), (0, 1), (- 1, - 1), (- 1, 1), (1, - 1), (1, 1)]"

definition neighbour_values :: "'a arr2 \<Rightarrow> nat \<Rightarrow> nat \<Rightarrow> 'a list" where
  "neighbour_values a i j =
     map (\<lambda>(di, dj). a ! clamp_idx (length a) di i ! clamp_idx (length (hd a)) dj j) neighbour_offsets"

definition equal_neighbours :: "int arr2 \<Rightarrow> nat \<Rightarrow> nat \<Rightarrow> nat" where
  "equal_neighbours a i j = length (filter (\<lambda>v. v = a ! i ! j) (neighbour_values a i j))"

definition neighbour_sum :: "int arr2 \<Rightarrow> nat \<Rightarrow> nat \<Rightarrow> int" where
  "neighbour_sum a i j = sum_list (neighbour_values a i j)"

definition window_sum :: "int arr2 \<Rightarrow> nat \<Rightarrow> nat \<Rightarrow> int" where
  "window_sum a i j = a ! i ! j + neighbour_sum a i j"

text \<open>The two components of a shift, used to state the lemmas about \<^verbatim>\<open>roll\<close>.\<close>

fun shift0 :: "roll_spec \<Rightarrow> int" where
  "shift0 (Axis0 s) = s" | "shift0 (Axis1 s) = 0" | "shift0 (Axes01 s0 s1) = s0"

fun shift1 :: "roll_spec \<Rightarrow> int" where
  "shift1 (Axis0 s) = 0" | "shift1 (Axis1 s) = s" | "shift1 (Axes01 s0 s1) = s1"

section \<open>Edge-gap closing\<close>

text \<open>
  \<^verbatim>\<open>close_edge_ends\<close> (lines 203 to 227). Each of the four blocks builds a zero vector
  \<^verbatim>\<open>z\<close>, sets it to 1 where the row or column it reads equals 1, and writes it to a border
  row or column of the array, in place. Reading row 1 needs two rows and reading column 0
  needs one column; otherwise the index is out of bounds.
\<close>

definition row_ind :: "int list \<Rightarrow> int list" where
  "row_ind r = map (\<lambda>x. if x = 1 then 1 else 0) r"

definition get_col :: "nat \<Rightarrow> 'a arr2 \<Rightarrow> 'a list" where
  "get_col j a = map (\<lambda>r. r ! j) a"

definition set_col :: "nat \<Rightarrow> 'a list \<Rightarrow> 'a arr2 \<Rightarrow> 'a arr2" where
  "set_col j z a = map2 (\<lambda>r v. r[j := v]) a z"

definition close_edge_ends :: "int arr2 \<Rightarrow> np_error + int arr2" where
  "close_edge_ends labels_array =
     (let h = length labels_array; w = length (hd labels_array) in
      if h < 2 \<or> w < 1 then Inl IndexError
      else
        let top = labels_array[0 := row_ind (labels_array ! 1)];
            bottom = top[h - 1 := row_ind (top ! (h - 1))];
            left = set_col 0 (row_ind (get_col 0 bottom)) bottom;
            right = set_col (w - 1) (row_ind (get_col (w - 1) left)) left
        in Inr right)"

text \<open>
  Two arrays of one shape, without an empty axis. Operations between arrays are
  embedded for such pairs; other shapes depend on broadcasting.
\<close>

definition same_shape :: "'a arr2 \<Rightarrow> 'b arr2 \<Rightarrow> bool" where
  "same_shape a b =
     (length a = length b \<and> a \<noteq> [] \<and> hd a \<noteq> [] \<and>
      list_all (\<lambda>r. length r = length (hd a)) a \<and> list_all (\<lambda>r. length r = length (hd a)) b)"

section \<open>Segments: uniform classes and slivers\<close>

text \<open>
  \<^verbatim>\<open>scipy.ndimage.label\<close> is an external library function; the functions that call it
  take it as the parameter \<^verbatim>\<open>nd_label\<close>, from a 0/1 mask to the array of component
  numbers (0 off the mask). The helpers below are the numpy expressions of
  \<^verbatim>\<open>make_crops_uniform\<close> and \<^verbatim>\<open>check_slivers\<close>.
\<close>

text \<open>\<^verbatim>\<open>np.uint8(edges == 0)\<close>.\<close>

definition edge_free_mask :: "int arr2 \<Rightarrow> int arr2" where
  "edge_free_mask edges = map (map (\<lambda>e. if e = 0 then 1 else 0)) edges"

text \<open>\<^verbatim>\<open>np.unique\<close>: the sorted distinct values.\<close>

definition np_unique :: "int arr2 \<Rightarrow> int list" where
  "np_unique a = sorted_list_of_set (set (concat a))"

text \<open>\<^verbatim>\<open>nd_sum(input, labels=segments, index=lab)\<close> for one index value.\<close>

definition nd_sum :: "int arr2 \<Rightarrow> int arr2 \<Rightarrow> int \<Rightarrow> int" where
  "nd_sum input segments lab =
     sum_list (map (\<lambda>(v, s). if s = lab then v else 0) (zip (concat input) (concat segments)))"

text \<open>\<^verbatim>\<open>(segments == lab).sum()\<close>.\<close>

definition count_eq :: "int arr2 \<Rightarrow> int \<Rightarrow> nat" where
  "count_eq segments lab = length (filter (\<lambda>s. s = lab) (concat segments))"

text \<open>\<^verbatim>\<open>labels_array[segments == lab] = v\<close>.\<close>

definition assign_where :: "int arr2 \<Rightarrow> int arr2 \<Rightarrow> int \<Rightarrow> int \<Rightarrow> int arr2" where
  "assign_where labels_array segments lab v =
     map2 (map2 (\<lambda>l s. if s = lab then v else l)) labels_array segments"

text \<open>\<^verbatim>\<open>labels_array[np.where(segments == lab)].flatten()\<close>.\<close>

definition select_where :: "'a arr2 \<Rightarrow> int arr2 \<Rightarrow> int \<Rightarrow> 'a list" where
  "select_where labels_array segments lab =
     map fst (filter (\<lambda>(l, s). s = lab) (zip (concat labels_array) (concat segments)))"

text \<open>
  \<^verbatim>\<open>scipy.stats.mode(xs).mode[0]\<close>: the most frequent value, the smallest one when
  several values are equally frequent.
\<close>

definition stats_mode :: "int list \<Rightarrow> int" where
  "stats_mode xs =
     hd (filter (\<lambda>v. list_all (\<lambda>u. count_list xs u \<le> count_list xs v) xs)
           (sorted_list_of_set (set xs)))"

text \<open>
  The loop of \<^verbatim>\<open>make_crops_uniform\<close> (lines 148 to 165) over the pairs of
  \<^verbatim>\<open>index[lidx]\<close> and \<^verbatim>\<open>crop_totals[lidx]\<close>, threading \<^verbatim>\<open>labels_array\<close>.
\<close>

fun uniform_loop :: "string \<Rightarrow> int arr2 \<Rightarrow> (int \<times> int) list \<Rightarrow> int arr2 \<Rightarrow> int arr2" where
  "uniform_loop data_type segments [] labels_array = labels_array"
| "uniform_loop data_type segments ((lab, crop_total) # rest) labels_array =
     uniform_loop data_type segments rest
       (if crop_total = 0 then assign_where labels_array segments lab 0
        else
          let seg_area = count_eq segments lab;
              crop_prop = real_of_int crop_total / real seg_area
          in if crop_prop > 0.5 then
               (if data_type = ''boundaries'' then assign_where labels_array segments lab CROP_CLASS
                else
                  let crop_pixels = select_where labels_array segments lab
                  in assign_where labels_array segments lab (stats_mode crop_pixels))
             else assign_where labels_array segments lab 0)"

text \<open>
  \<^verbatim>\<open>make_crops_uniform\<close> (lines 140 to 167). The embedding covers a label array of the
  shape of \<^verbatim>\<open>edges\<close> and a labelling that keeps the shape of its mask.
\<close>

definition make_crops_uniform ::
  "(int arr2 \<Rightarrow> int arr2) \<Rightarrow> int arr2 \<Rightarrow> int arr2 \<Rightarrow> string \<Rightarrow> np_error + (int arr2 \<times> int arr2)" where
  "make_crops_uniform nd_label labels_array edges data_type =
     (let segments = nd_label (edge_free_mask edges) in
      if \<not> (same_shape labels_array edges \<and> same_shape labels_array segments) then Inl NotEmbedded
      else
        let index = np_unique segments;
            crop_totals = map (nd_sum (where_pos labels_array) segments) index
        in Inr (uniform_loop data_type segments (zip index crop_totals) labels_array, segments))"

text \<open>
  \<^verbatim>\<open>skimage.measure.regionprops\<close> (external): one region for each positive label that
  occurs, in ascending order, with the bounding box
  \<^verbatim>\<open>(min_row, min_col, max_row, max_col)\<close>, the maxima exclusive.
\<close>

record region =
  label :: int
  bbox :: "nat \<times> nat \<times> nat \<times> nat"

definition rows_with :: "int arr2 \<Rightarrow> int \<Rightarrow> nat list" where
  "rows_with segments lab = filter (\<lambda>i. lab \<in> set (segments ! i)) [0..<length segments]"

definition cols_with :: "int arr2 \<Rightarrow> int \<Rightarrow> nat list" where
  "cols_with segments lab =
     filter (\<lambda>j. list_ex (\<lambda>r. r ! j = lab) segments) [0..<length (hd segments)]"

definition bbox_of :: "int arr2 \<Rightarrow> int \<Rightarrow> nat \<times> nat \<times> nat \<times> nat" where
  "bbox_of segments lab =
     (hd (rows_with segments lab), hd (cols_with segments lab),
      last (rows_with segments lab) + 1, last (cols_with segments lab) + 1)"

definition regionprops :: "int arr2 \<Rightarrow> region list" where
  "regionprops segments =
     map (\<lambda>lab. \<lparr>label = lab, bbox = bbox_of segments lab\<rparr>)
       (filter (\<lambda>lab. 0 < lab) (np_unique segments))"

text \<open>The test \<^verbatim>\<open>(max_row - min_row <= 1) or (max_col - min_col <= 1)\<close>.\<close>

fun thin_bbox :: "nat \<times> nat \<times> nat \<times> nat \<Rightarrow> bool" where
  "thin_bbox (min_row, min_col, max_row, max_col) =
     (int max_row - int min_row \<le> 1 \<or> int max_col - int min_col \<le> 1)"

text \<open>\<^verbatim>\<open>check_slivers\<close> (lines 125 to 137).\<close>

fun sliver_loop :: "int arr2 \<Rightarrow> region list \<Rightarrow> int arr2 \<Rightarrow> int arr2" where
  "sliver_loop segments [] labels_array = labels_array"
| "sliver_loop segments (p # props) labels_array =
     sliver_loop segments props
       (if thin_bbox (bbox p) then assign_where labels_array segments (label p) 0
        else labels_array)"

definition impose_edges :: "int arr2 \<Rightarrow> int arr2 \<Rightarrow> int arr2" where
  "impose_edges labels_array edges =
     map2 (map2 (\<lambda>l e. if e = 1 then EDGE_CLASS else l)) labels_array edges"

definition check_slivers ::
  "int arr2 \<Rightarrow> int arr2 \<Rightarrow> int arr2 \<Rightarrow> np_error + (int arr2 \<times> region list)" where
  "check_slivers labels_array edges segments =
     (if \<not> (same_shape labels_array edges \<and> same_shape labels_array segments) then Inl NotEmbedded
      else
        let props = regionprops segments;
            labels_array = sliver_loop segments props labels_array;
            labels_array = impose_edges labels_array edges
        in Inr (labels_array, props))"

section \<open>Boundary distances\<close>

text \<open>
  Floating-point values are idealised: a finite value is a real number (no rounding),
  and the three special values that a division can produce are kept apart. Signed zeros
  are not distinguished.
\<close>

datatype fl = Fin real | PInf | NInf | NaN

fun fl_div :: "fl \<Rightarrow> fl \<Rightarrow> fl" where
  "fl_div (Fin x) (Fin y) =
     (if y \<noteq> 0 then Fin (x / y) else if x = 0 then NaN else if 0 < x then PInf else NInf)"
| "fl_div (Fin x) PInf = Fin 0"
| "fl_div (Fin x) NInf = Fin 0"
| "fl_div PInf (Fin y) = (if 0 \<le> y then PInf else NInf)"
| "fl_div NInf (Fin y) = (if 0 \<le> y then NInf else PInf)"
| "fl_div PInf PInf = NaN"
| "fl_div PInf NInf = NaN"
| "fl_div NInf PInf = NaN"
| "fl_div NInf NInf = NaN"
| "fl_div NaN b = NaN"
| "fl_div a NaN = NaN"

text \<open>\<^verbatim>\<open>np.max\<close>: a NaN among the values is the result.\<close>

fun fl_max2 :: "fl \<Rightarrow> fl \<Rightarrow> fl" where
  "fl_max2 NaN b = NaN"
| "fl_max2 a NaN = NaN"
| "fl_max2 PInf b = PInf"
| "fl_max2 a PInf = PInf"
| "fl_max2 NInf b = b"
| "fl_max2 a NInf = a"
| "fl_max2 (Fin x) (Fin y) = Fin (max x y)"

text \<open>
  The maximum of a selection. \<^verbatim>\<open>regionprops\<close> yields only labels that occur in the
  segment array, so the selection of a region is never empty; the value for the empty
  list is not used.
\<close>

fun fl_max :: "fl list \<Rightarrow> fl" where
  "fl_max [] = NaN"
| "fl_max (x # xs) = foldl fl_max2 x xs"

text \<open>\<^verbatim>\<open>bdist.clip(0, 1)\<close> and \<^verbatim>\<open>np.nan_to_num(..., nan=1.0, neginf=1.0, posinf=1.0)\<close>.\<close>

fun fl_clip01 :: "fl \<Rightarrow> fl" where
  "fl_clip01 (Fin x) = Fin (min (max x 0) 1)"
| "fl_clip01 PInf = Fin 1"
| "fl_clip01 NInf = Fin 0"
| "fl_clip01 NaN = NaN"

fun nan_to_num :: "fl \<Rightarrow> fl" where
  "nan_to_num NaN = Fin 1"
| "nan_to_num PInf = Fin 1"
| "nan_to_num NInf = Fin 1"
| "nan_to_num (Fin x) = Fin x"

text \<open>\<^verbatim>\<open>str.lower\<close> on ASCII letters.\<close>

definition lower_char :: "char \<Rightarrow> char" where
  "lower_char c =
     (let n = (of_char c :: nat) in if 65 \<le> n \<and> n \<le> 90 then char_of (n + 32) else c)"

definition lower :: "string \<Rightarrow> string" where
  "lower s = map lower_char s"

text \<open>\<^verbatim>\<open>np.uint8\<close> of an integer array.\<close>

definition uint8 :: "int arr2 \<Rightarrow> int arr2" where
  "uint8 a = map (map (\<lambda>x. x mod 256)) a"

text \<open>
  \<^verbatim>\<open>create_boundary_distances\<close> (lines 257 to 271). The labelling \<^verbatim>\<open>nd_label\<close>, the
  distance transform \<^verbatim>\<open>cv2.distanceTransform(mask, cv2.DIST_L2, 3)\<close> and the cell size
  \<^verbatim>\<open>src_ts.gw.celly\<close> are external and are parameters.
\<close>

definition boundary_mask :: "int arr2 \<Rightarrow> string \<Rightarrow> int arr2" where
  "boundary_mask labels_array train_type =
     (if lower train_type = ''polygon'' then uint8 labels_array
      else uint8 (map (map (\<lambda>x. 1 - x)) labels_array))"

definition create_boundary_distances ::
  "(int arr2 \<Rightarrow> int arr2) \<Rightarrow> (int arr2 \<Rightarrow> real arr2) \<Rightarrow> real \<Rightarrow> int arr2 \<Rightarrow> string
     \<Rightarrow> int arr2 \<times> int arr2 \<times> fl arr2" where
  "create_boundary_distances nd_label distance_transform celly labels_array train_type =
     (let mask = boundary_mask labels_array train_type;
          segments = nd_label mask;
          bdist = map (map (\<lambda>d. Fin (d * celly))) (distance_transform mask)
      in (mask, segments, bdist))"

text \<open>
  \<^verbatim>\<open>max_intensity\<close> of a region is computed when the property is read, from the
  intensity image as it is then: the maximum over the pixels of the region.
\<close>

definition max_intensity :: "int arr2 \<Rightarrow> int \<Rightarrow> fl arr2 \<Rightarrow> fl" where
  "max_intensity segments lab bdist = fl_max (select_where bdist segments lab)"

text \<open>
  The assignment \<^verbatim>\<open>bdist[label_slice] = np.where(seg_label == p.label, v, bdist_label)\<close>
  over the window of a bounding box, written by index: inside the window a pixel of
  the region gets the new value, every other pixel keeps its own.
\<close>

fun in_bbox :: "nat \<times> nat \<times> nat \<times> nat \<Rightarrow> nat \<Rightarrow> nat \<Rightarrow> bool" where
  "in_bbox (min_row, min_col, max_row, max_col) i j =
     (min_row \<le> i \<and> i < max_row \<and> min_col \<le> j \<and> j < max_col)"

definition window_where ::
  "nat \<times> nat \<times> nat \<times> nat \<Rightarrow> int arr2 \<Rightarrow> int \<Rightarrow> ('a \<Rightarrow> 'a) \<Rightarrow> 'a arr2 \<Rightarrow> 'a arr2" where
  "window_where bb segments lab f bdist =
     map (\<lambda>i. map (\<lambda>j. if in_bbox bb i j \<and> segments ! i ! j = lab then f (bdist ! i ! j)
                         else bdist ! i ! j)
                [0..<length (bdist ! i)])
       [0..<length bdist]"

text \<open>The loop of \<^verbatim>\<open>normalize_boundary_distances\<close> (lines 283 to 299).\<close>

definition normalize_step :: "int arr2 \<Rightarrow> region \<Rightarrow> fl arr2 \<Rightarrow> fl arr2" where
  "normalize_step segments p bdist =
     (if 0 < label p then
        (if thin_bbox (bbox p)
         then window_where (bbox p) segments (label p) (\<lambda>_. Fin (1 / 10)) bdist
         else window_where (bbox p) segments (label p)
                (\<lambda>d. fl_div d (max_intensity segments (label p) bdist)) bdist)
      else bdist)"

fun normalize_loop :: "int arr2 \<Rightarrow> region list \<Rightarrow> fl arr2 \<Rightarrow> fl arr2" where
  "normalize_loop segments [] bdist = bdist"
| "normalize_loop segments (p # props) bdist =
     normalize_loop segments props (normalize_step segments p bdist)"

text \<open>
  \<^verbatim>\<open>normalize_boundary_distances\<close> (lines 274 to 302). \<^verbatim>\<open>normalized_unclipped\<close> is the
  array before the last line; the embedding covers a labelling and a distance transform
  that keep the shape of the mask.
\<close>

definition normalized_unclipped ::
  "(int arr2 \<Rightarrow> int arr2) \<Rightarrow> (int arr2 \<Rightarrow> real arr2) \<Rightarrow> real \<Rightarrow> int arr2 \<Rightarrow> string \<Rightarrow> fl arr2" where
  "normalized_unclipped nd_label distance_transform celly labels_array train_type =
     (case create_boundary_distances nd_label distance_transform celly labels_array train_type of
        (_, segments, bdist) \<Rightarrow> normalize_loop segments (regionprops segments) bdist)"

definition normalize_boundary_distances ::
  "(int arr2 \<Rightarrow> int arr2) \<Rightarrow> (int arr2 \<Rightarrow> real arr2) \<Rightarrow> real \<Rightarrow> int arr2 \<Rightarrow> string
     \<Rightarrow> np_error + fl arr2" where
  "normalize_boundary_distances nd_label distance_transform celly labels_array train_type =
     (case create_boundary_distances nd_label distance_transform celly labels_array train_type of
        (_, segments, bdist) \<Rightarrow>
          if \<not> same_shape segments bdist then Inl NotEmbedded
          else Inr (map (map (\<lambda>v. nan_to_num (fl_clip01 v)))
                     (normalize_loop segments (regionprops segments) bdist)))"

text \<open>Predicates used to state the properties of the distance field.\<close>

fun is_finite :: "fl \<Rightarrow> bool" where
  "is_finite (Fin x) = True"
| "is_finite v = False"

fun nonneg_fl :: "fl \<Rightarrow> bool" where
  "nonneg_fl (Fin x) = (0 \<le> x)"
| "nonneg_fl NInf = False"
| "nonneg_fl v = True"

fun in_unit_interval :: "fl \<Rightarrow> bool" where
  "in_unit_interval (Fin x) = (0 \<le> x \<and> x \<le> 1)"
| "in_unit_interval v = False"

section \<open>Non-crop masking\<close>

text \<open>
  \<^verbatim>\<open>remove_noncrop\<close> (lines 31 to 49). The image stack is the list of its bands, of
  float64 values. The product with the 0/1 mask \<^verbatim>\<open>np.uint8(labels_array > 0)\<close> is exact
  in IEEE arithmetic: a value times 1 is the value, a finite value times 0 is zero, and NaN
  or an infinity times 0 is NaN.
\<close>

fun mul_mask :: "fl \<Rightarrow> bool \<Rightarrow> fl" where
  "mul_mask v True = v"
| "mul_mask (Fin x) False = Fin 0"
| "mul_mask v False = NaN"

definition mask_band :: "fl arr2 \<Rightarrow> int arr2 \<Rightarrow> fl arr2" where
  "mask_band bdist labels_array = map2 (map2 (\<lambda>d l. mul_mask d (l > 0))) bdist labels_array"

text \<open>The comparison \<^verbatim>\<open>dist_mean > 0\<close> and the product of the labels with its mask.\<close>

fun fl_pos :: "fl \<Rightarrow> bool" where
  "fl_pos (Fin x) = (0 < x)"
| "fl_pos PInf = True"
| "fl_pos v = False"

definition mask_labels :: "int arr2 \<Rightarrow> fl arr2 \<Rightarrow> int arr2" where
  "mask_labels labels_array dist_mean =
     map2 (map2 (\<lambda>l m. l * (if fl_pos m then 1 else 0))) labels_array dist_mean"

definition zeros_like :: "fl arr2 \<Rightarrow> fl arr2" where
  "zeros_like a = map (map (\<lambda>_. Fin 0)) a"

text \<open>
  The update \<^verbatim>\<open>dist_mean[1:-1, 1:-1] = dist_mean[1:-1, 1:-1] + blk\<close>: the border of
  \<^verbatim>\<open>dist_mean\<close> stays, the inner block is added to. The float64 addition \<^verbatim>\<open>fadd\<close>
  rounds and is a parameter, as is the division by 4.0 below.
\<close>

definition inner_update :: "('a list \<Rightarrow> 'a list) \<Rightarrow> 'a list \<Rightarrow> 'a list" where
  "inner_update f xs = (if length xs < 2 then xs else hd xs # f (slice_inner xs) @ [last xs])"

definition add_inner :: "(fl \<Rightarrow> fl \<Rightarrow> fl) \<Rightarrow> fl arr2 \<Rightarrow> fl arr2 \<Rightarrow> fl arr2" where
  "add_inner fadd dist_mean blk =
     inner_update (\<lambda>rows. map2 (\<lambda>r b. inner_update (\<lambda>mid. map2 fadd mid b) r) rows blk) dist_mean"

text \<open>The slice \<^verbatim>\<open>[5:-5]\<close> of one axis.\<close>

definition slice5 :: "'a list \<Rightarrow> 'a list" where
  "slice5 xs = take (length xs - 10) (drop 5 xs)"

definition remove_noncrop ::
  "(fl \<Rightarrow> fl \<Rightarrow> fl) \<Rightarrow> (fl \<Rightarrow> fl) \<Rightarrow> fl arr2 list \<Rightarrow> int arr2
     \<Rightarrow> np_error + (fl arr2 list \<times> int arr2)" where
  "remove_noncrop fadd fdiv4 xvars labels_array =
     (if xvars = [] then Inl IndexError
      else if \<not> same_shape (last xvars) labels_array then Inl NotEmbedded
      else
        let bdist = last xvars;
            bdist = mask_band bdist labels_array;
            xvars = xvars[length xvars - 1 := bdist];
            bdist = np_pad_edge 5 bdist;
            dist_mean = zeros_like bdist;
            dist_mean = add_inner fadd dist_mean (inner2 (np_roll bdist (Axis1 1)));
            dist_mean = add_inner fadd dist_mean (inner2 (np_roll bdist (Axis1 (- 1))));
            dist_mean = add_inner fadd dist_mean (inner2 (np_roll bdist (Axis0 1)));
            dist_mean = add_inner fadd dist_mean (inner2 (np_roll bdist (Axis0 (- 1))));
            dist_mean = map slice5 (slice5 (map (map fdiv4) dist_mean));
            labels_array = mask_labels labels_array dist_mean
        in Inr (xvars, labels_array))"

text \<open>
  An instance of the two rounding operations for evaluating examples: it is the float64
  result whenever the exact sum or quotient is a float64 value, as for the small dyadic
  fractions used below.
\<close>

fun fl_add :: "fl \<Rightarrow> fl \<Rightarrow> fl" where
  "fl_add (Fin x) (Fin y) = Fin (x + y)"
| "fl_add NaN b = NaN"
| "fl_add a NaN = NaN"
| "fl_add PInf NInf = NaN"
| "fl_add NInf PInf = NaN"
| "fl_add PInf b = PInf"
| "fl_add a PInf = PInf"
| "fl_add NInf b = NInf"
| "fl_add a NInf = NInf"

fun fl_div4 :: "fl \<Rightarrow> fl" where
  "fl_div4 (Fin x) = Fin (x / 4)"
| "fl_div4 v = v"

section \<open>The grid orchestrator\<close>

text \<open>
  \<^verbatim>\<open>create_dataset\<close> (lines 393 to 582). The geometry library, the raster library and
  Python's \<^verbatim>\<open>int\<close> are external; they are the fields of an environment. A frame
  (\<^verbatim>\<open>GeoDataFrame\<close>) has the type \<^verbatim>\<open>'f\<close> and a geometry the type \<^verbatim>\<open>'g\<close>. A call that
  raises returns \<^verbatim>\<open>Inl\<close>.
\<close>

datatype exn = Exn string

record 'g grid_row =
  grid :: grid_id
  geometry :: 'g

record ('g, 'f) env =
  clip :: "'f \<Rightarrow> 'g \<Rightarrow> exn + 'f"
  clip_many :: "'f \<Rightarrow> 'g list \<Rightarrow> exn + 'f"
  buffer0 :: "'f \<Rightarrow> 'f"
  drop_empty :: "'f \<Rightarrow> 'f"
  frame_empty :: "'f \<Rightarrow> bool"
  grids_as_edges :: "'f"
  sindex_intersection :: "'f \<Rightarrow> nat list"
  image_shape :: "'f \<Rightarrow> nat list \<Rightarrow> nat \<times> nat"
  py_int :: "string \<Rightarrow> int option"

text \<open>
  The fields stand for: \<^verbatim>\<open>gpd.clip(df_edges, row.geometry)\<close>;
  \<^verbatim>\<open>gpd.clip(df_edges, df_grids.iloc[int_idx].geometry)\<close>; the frame rebuilt from
  \<^verbatim>\<open>df_edges.buffer(0)\<close>; \<^verbatim>\<open>frame.loc[~frame.is_empty]\<close>; \<^verbatim>\<open>frame.empty\<close>;
  \<^verbatim>\<open>df_grids.copy()\<close> with the class column set to 0; the positions returned by
  \<^verbatim>\<open>sindex.intersection(tuple(grid_edges.total_bounds.flatten()))\<close>; the height and width
  of the image stack that \<^verbatim>\<open>create_image_vars\<close> returns for the clipped frame and the
  intersecting cells; and \<^verbatim>\<open>int\<close> on a string (\<^verbatim>\<open>None\<close> when it raises ValueError).
\<close>

text \<open>
  The state that the loop threads: the boundary frame \<^verbatim>\<open>df_edges\<close> (re-assigned by the
  repair), the list \<^verbatim>\<open>merged_grids\<close>, and the files under \<^verbatim>\<open>process_path\<close>.
\<close>

record 'f run_state =
  df_edges :: 'f
  merged_grids :: "grid_id list"
  files :: store

text \<open>
  Modelled from the spec: \<^verbatim>\<open>augment\<close> (cultionet.augment.augmentation) is not part of
  the sources at hand. The specification keys a training record by its identity, so the
  record that \<^verbatim>\<open>augment(..., train_id=train_id)\<close> returns carries that \<^verbatim>\<open>train_id\<close>, and
  \<^verbatim>\<open>save_and_update\<close> writes it to \<^verbatim>\<open>data_{train_id}.pt\<close>.
\<close>

definition save_and_update :: "store \<Rightarrow> string \<Rightarrow> store" where
  "save_and_update fs train_id = fs(train_path train_id \<mapsto> train_id)"

text \<open>The loops of lines 558 to 579.\<close>

fun save_ts_loop :: "string option \<Rightarrow> grid_id \<Rightarrow> string \<Rightarrow> nat list \<Rightarrow> store \<Rightarrow> store" where
  "save_ts_loop group_id g aug [] fs = fs"
| "save_ts_loop group_id g aug (i # is) fs =
     save_ts_loop group_id g aug is (save_and_update fs (train_id_ts group_id g aug i))"

fun save_aug_loop :: "string list \<Rightarrow> string option \<Rightarrow> grid_id \<Rightarrow> int \<Rightarrow> store \<Rightarrow> store" where
  "save_aug_loop [] group_id g n_ts fs = fs"
| "save_aug_loop (aug # augs) group_id g n_ts fs =
     save_aug_loop augs group_id g n_ts
       (if startswith aug ''ts-'' then save_ts_loop group_id g aug [0..<nat n_ts] fs
        else save_and_update fs (train_id_plain group_id g aug))"

text \<open>\<^verbatim>\<open>group_id.split('_')[-1]\<close>.\<close>

definition last_piece :: "string \<Rightarrow> string" where
  "last_piece s = rev (takeWhile (\<lambda>c. c \<noteq> CHR ''_'') (rev s))"

text \<open>
  Lines 473 to 579 for one cell, from the clipped frame \<^verbatim>\<open>grid_edges\<close> and the
  positions \<^verbatim>\<open>int_idx\<close>: the size test, the persistence test, the year taken from the
  group id, and the augmentation loop. The arrays built in between (land cover, recoding,
  segments) do not enter the state and are left out.
\<close>

definition generate ::
  "('g, 'f) env \<Rightarrow> string option \<Rightarrow> string list \<Rightarrow> int \<Rightarrow> 'f run_state \<Rightarrow> 'g grid_row
     \<Rightarrow> 'f \<Rightarrow> nat list \<Rightarrow> exn + 'f run_state" where
  "generate E group_id transforms n_ts st row grid_edges int_idx =
     (let (height, width) = image_shape E grid_edges int_idx in
      if height < 5 \<or> width < 5 then Inr st
      else if is_grid_processed (files st) transforms group_id (grid row) n_ts then Inr st
      else
        (case (case group_id of None \<Rightarrow> Some None
               | Some s \<Rightarrow> map_option Some (py_int E (last_piece s))) of
           None \<Rightarrow> Inl (Exn ''ValueError'')
         | Some end_year \<Rightarrow>
             Inr (st\<lparr>files := save_aug_loop transforms group_id (grid row) n_ts (files st)\<rparr>)))"

text \<open>
  Lines 451 to 471: the empty-frame replacement, the spatial-index query and the test
  on \<^verbatim>\<open>merged_grids\<close>.
\<close>

definition after_clip ::
  "('g, 'f) env \<Rightarrow> 'g grid_row list \<Rightarrow> string option \<Rightarrow> string list \<Rightarrow> int \<Rightarrow> 'f run_state
     \<Rightarrow> 'g grid_row \<Rightarrow> 'f \<Rightarrow> exn + 'f run_state" where
  "after_clip E df_grids group_id transforms n_ts st row grid_edges =
     (let grid_edges = (if frame_empty E (drop_empty E grid_edges) then grids_as_edges E
                        else grid_edges);
          grid_edges = drop_empty E grid_edges
      in if frame_empty E grid_edges then Inr st
         else
           let int_idx = sort (sindex_intersection E grid_edges) in
           if 1 < length int_idx then
             (if list_ex (\<lambda>rowg. rowg \<in> set (merged_grids st)) (map (\<lambda>k. grid (df_grids ! k)) int_idx)
              then Inr st
              else
                (case clip_many E (df_edges st) (map (\<lambda>k. geometry (df_grids ! k)) int_idx) of
                   Inl e \<Rightarrow> Inl e
                 | Inr grid_edges \<Rightarrow>
                     generate E group_id transforms n_ts
                       (st\<lparr>merged_grids := merged_grids st @ [grid row]\<rparr>) row grid_edges int_idx))
           else generate E group_id transforms n_ts st row grid_edges int_idx)"

text \<open>
  Lines 441 to 449: the clip, and on any exception the repair of \<^verbatim>\<open>df_edges\<close> and the
  second clip, which is outside the \<^verbatim>\<open>try\<close>.
\<close>

definition process_row ::
  "('g, 'f) env \<Rightarrow> 'g grid_row list \<Rightarrow> string option \<Rightarrow> string list \<Rightarrow> int \<Rightarrow> 'f run_state
     \<Rightarrow> 'g grid_row \<Rightarrow> exn + 'f run_state" where
  "process_row E df_grids group_id transforms n_ts st row =
     (case clip E (df_edges st) (geometry row) of
        Inr grid_edges \<Rightarrow> after_clip E df_grids group_id transforms n_ts st row grid_edges
      | Inl _ \<Rightarrow>
          let st = st\<lparr>df_edges := buffer0 E (df_edges st)\<rparr> in
          (case clip E (df_edges st) (geometry row) of
             Inl e \<Rightarrow> Inl e
           | Inr grid_edges \<Rightarrow> after_clip E df_grids group_id transforms n_ts st row grid_edges))"

text \<open>The loop \<^verbatim>\<open>for row in df_grids.itertuples()\<close>: an exception ends the run.\<close>

fun grid_loop ::
  "('g, 'f) env \<Rightarrow> 'g grid_row list \<Rightarrow> string option \<Rightarrow> string list \<Rightarrow> int
     \<Rightarrow> 'g grid_row list \<Rightarrow> 'f run_state \<Rightarrow> exn + 'f run_state" where
  "grid_loop E df_grids group_id transforms n_ts [] st = Inr st"
| "grid_loop E df_grids group_id transforms n_ts (row # rows) st =
     (case process_row E df_grids group_id transforms n_ts st row of
        Inl e \<Rightarrow> Inl e
      | Inr st' \<Rightarrow> grid_loop E df_grids group_id transforms n_ts rows st')"

definition create_dataset ::
  "('g, 'f) env \<Rightarrow> 'g grid_row list \<Rightarrow> 'f \<Rightarrow> string option \<Rightarrow> store \<Rightarrow> string list option \<Rightarrow> int
     \<Rightarrow> exn + 'f run_state" where
  "create_dataset E df_grids edges group_id process_path transforms n_ts =
     (let transforms = (case transforms of None \<Rightarrow> [''none''] | Some ts \<Rightarrow> ts);
          st = \<lparr>df_edges = edges, merged_grids = [], files = process_path\<rparr>
      in grid_loop E df_grids group_id transforms n_ts df_grids st)"

section \<open>Properties of the persistence check\<close>






section \<open>Properties of the array operations\<close>

text \<open>
  Rolling the edge-padded array by a shift in \<^verbatim>\<open>{-1, 0, 1}\<close> and slicing the padding
  off reads the neighbour in the opposite direction, with the index clamped to the array.
\<close>

lemma length_pad_edge: "length (pad_edge k xs) = length xs + 2 * k"
  by (simp add: pad_edge_def)

lemma pad_edge1_nth:
  assumes "xs \<noteq> []" "i < length xs + 2"
  shows "pad_edge 1 xs ! i = xs ! clamp_idx (length xs) (-1) i"
proof -
  have p: "pad_edge (Suc 0) xs = hd xs # xs @ [last xs]" by (simp add: pad_edge_def)
  show ?thesis
  proof (cases i)
    case 0
    then show ?thesis using assms by (simp add: p clamp_idx_def hd_conv_nth)
  next
    case (Suc k)
    show ?thesis
    proof (cases "k < length xs")
      case True
      then show ?thesis using Suc by (simp add: p clamp_idx_def nth_append)
    next
      case False
      then have "k = length xs" using assms Suc by simp
      moreover have "nat (int (length xs) - 1) = length xs - 1" by arith
      ultimately show ?thesis using Suc assms
        by (simp add: p clamp_idx_def nth_append last_conv_nth)
    qed
  qed
qed

lemma slice_inner_nth:
  assumes "i + 2 < length ys"
  shows "slice_inner ys ! i = ys ! Suc i"
proof -
  have "length (butlast (tl ys)) = length ys - 2" by simp
  with assms have "i < length (butlast (tl ys))" by arith
  then have "butlast (tl ys) ! i = tl ys ! i" by (rule nth_butlast)
  also have "\<dots> = ys ! Suc i" using assms by (simp add: nth_tl)
  finally show ?thesis by (simp add: slice_inner_def)
qed

lemma length_slice_inner: "length (slice_inner ys) = length ys - 2"
  by (simp add: slice_inner_def)

lemma length_np_roll1: "length (np_roll1 s xs) = length xs"
  by (simp add: np_roll1_def)

lemma roll1_pad_nth:
  assumes "xs \<noteq> []" "i < length xs" "s = 1 \<or> s = 0 \<or> s = -1"
  shows "slice_inner (np_roll1 s (pad_edge 1 xs)) ! i = xs ! clamp_idx (length xs) (- s) i"
proof -
  define n where "n = length xs"
  define p where "p = pad_edge 1 xs"
  have lp: "length p = n + 2" by (simp add: p_def n_def length_pad_edge)
  have pn: "p ! k = xs ! clamp_idx n (-1) k" if "k < n + 2" for k
    using that assms(1) unfolding p_def n_def by (rule_tac pad_edge1_nth) simp_all
  have "i + 2 < length (np_roll1 s p)" using assms(2) by (simp add: length_np_roll1 lp n_def)
  then have a: "slice_inner (np_roll1 s p) ! i = np_roll1 s p ! Suc i"
    by (rule slice_inner_nth)
  have "Suc i < length p" using assms(2) by (simp add: lp n_def)
  then have b: "np_roll1 s p ! Suc i = p ! ((nat ((- s) mod int (n + 2)) + Suc i) mod (n + 2))"
    unfolding np_roll1_def lp by (rule nth_rotate[where xs = p, unfolded lp])
  have i: "i < n" using assms(2) by (simp add: n_def)
  from assms(3) consider "s = 1" | "s = 0" | "s = -1" by blast
  then have "slice_inner (np_roll1 s p) ! i = xs ! clamp_idx n (- s) i"
  proof cases
    case 1
    have "nat ((- s) mod int (n + 2)) = n + 1" using 1
      by (simp add: zmod_zminus1_eq_if nat_add_distrib)
    then have "(nat ((- s) mod int (n + 2)) + Suc i) mod (n + 2) = i"
      using i by (simp add: mod_if)
    then have "slice_inner (np_roll1 s p) ! i = p ! i" using a b by simp
    also have "\<dots> = xs ! clamp_idx n (-1) i" using i by (simp add: pn)
    finally show ?thesis using 1 by simp
  next
    case 2
    then have "slice_inner (np_roll1 s p) ! i = p ! Suc i" using a b i by simp
    also have "\<dots> = xs ! clamp_idx n (-1) (Suc i)" using i by (simp add: pn)
    also have "clamp_idx n (-1) (Suc i) = clamp_idx n 0 i" by (simp add: clamp_idx_def)
    finally show ?thesis using 2 by simp
  next
    case 3
    have "nat ((- s) mod int (n + 2)) = 1" using 3 by simp
    then have "slice_inner (np_roll1 s p) ! i = p ! Suc (Suc i)" using a b i by simp
    also have "\<dots> = xs ! clamp_idx n (-1) (Suc (Suc i))" using i by (simp add: pn)
    also have "clamp_idx n (-1) (Suc (Suc i)) = clamp_idx n 1 i" by (simp add: clamp_idx_def)
    finally show ?thesis using 3 by simp
  qed
  then show ?thesis by (simp add: p_def n_def)
qed

lemma np_roll1_0: "np_roll1 0 xs = xs"
  by (simp add: np_roll1_def)

lemma np_roll_shifts: "np_roll a sh = map (np_roll1 (shift1 sh)) (np_roll1 (shift0 sh) a)"
  by (cases sh) (simp_all add: np_roll1_0 cong: map_cong)

lemma slice_inner_map: "slice_inner (map f xs) = map f (slice_inner xs)"
  by (simp add: slice_inner_def map_butlast map_tl)

lemma np_roll1_map: "np_roll1 s (map f xs) = map f (np_roll1 s xs)"
  by (simp add: np_roll1_def rotate_map)

lemma roll_unfold:
  "roll p sh = map (\<lambda>r. slice_inner (np_roll1 (shift1 sh) r)) (slice_inner (np_roll1 (shift0 sh) p))"
  by (simp add: roll_def inner2_def np_roll_shifts slice_inner_map comp_def)

lemma has_shape_nth: "has_shape h w a \<Longrightarrow> i < h \<Longrightarrow> length (a ! i) = w"
  by (auto simp: has_shape_def list_all_length)

lemma has_shapeI: "length a = h \<Longrightarrow> (\<And>i. i < h \<Longrightarrow> length (a ! i) = w) \<Longrightarrow> has_shape h w a"
  by (auto simp: has_shape_def list_all_length)

lemma clamp_idx_less: "0 < n \<Longrightarrow> clamp_idx n d i < n"
  by (auto simp: clamp_idx_def)

lemma roll_pad_row:
  assumes "a \<noteq> []" "i < length a" "shift0 sh = 1 \<or> shift0 sh = 0 \<or> shift0 sh = -1"
  shows "roll (np_pad_edge 1 a) sh ! i =
         slice_inner (np_roll1 (shift1 sh) (pad_edge 1 (a ! clamp_idx (length a) (- shift0 sh) i)))"
proof -
  let ?a' = "map (pad_edge 1) a"
  have ne: "?a' \<noteq> []" and il: "i < length ?a'" using assms by simp_all
  have r: "slice_inner (np_roll1 (shift0 sh) (pad_edge 1 ?a')) ! i
           = ?a' ! clamp_idx (length ?a') (- shift0 sh) i"
    using ne il assms(3) by (rule roll1_pad_nth)
  have li: "i < length (slice_inner (np_roll1 (shift0 sh) (pad_edge 1 ?a')))"
    using assms(2) by (simp add: length_slice_inner length_np_roll1 length_pad_edge)
  have c: "clamp_idx (length a) (- shift0 sh) i < length a"
    using assms(1) by (simp add: clamp_idx_less)
  show ?thesis
    unfolding roll_unfold np_pad_edge_def using li r c by simp
qed

lemma roll_pad_nth:
  assumes "has_shape h w a" "0 < h" "0 < w" "i < h" "j < w"
    "shift0 sh = 1 \<or> shift0 sh = 0 \<or> shift0 sh = -1"
    "shift1 sh = 1 \<or> shift1 sh = 0 \<or> shift1 sh = -1"
  shows "roll (np_pad_edge 1 a) sh ! i ! j = a ! clamp_idx h (- shift0 sh) i ! clamp_idx w (- shift1 sh) j"
proof -
  have la: "length a = h" using assms(1) by (simp add: has_shape_def)
  then have ne: "a \<noteq> []" using assms(2) by auto
  let ?r = "a ! clamp_idx h (- shift0 sh) i"
  have lr: "length ?r = w" using assms(1,2) by (simp add: has_shape_nth clamp_idx_less)
  then have rne: "?r \<noteq> []" and jr: "j < length ?r" using assms(3,5) by auto
  have "roll (np_pad_edge 1 a) sh ! i = slice_inner (np_roll1 (shift1 sh) (pad_edge 1 ?r))"
    using roll_pad_row[OF ne _ assms(6), of i] assms(4) la by simp
  moreover have "slice_inner (np_roll1 (shift1 sh) (pad_edge 1 ?r)) ! j
           = ?r ! clamp_idx (length ?r) (- shift1 sh) j"
    using rne jr assms(7) by (rule roll1_pad_nth)
  ultimately show ?thesis using lr by simp
qed

lemma roll_pad_shape:
  assumes "has_shape h w a" "0 < h" "0 < w"
    "shift0 sh = 1 \<or> shift0 sh = 0 \<or> shift0 sh = -1"
  shows "has_shape h w (roll (np_pad_edge 1 a) sh)"
proof (rule has_shapeI)
  have la: "length a = h" using assms(1) by (simp add: has_shape_def)
  show "length (roll (np_pad_edge 1 a) sh) = h"
    by (simp add: roll_unfold np_pad_edge_def length_slice_inner length_np_roll1 length_pad_edge la)
  fix i assume i: "i < h"
  have ne: "a \<noteq> []" using la assms(2) by auto
  have "length (a ! clamp_idx (length a) (- shift0 sh) i) = w"
    using assms(1,2) la by (simp add: has_shape_nth clamp_idx_less)
  then show "length (roll (np_pad_edge 1 a) sh ! i) = w"
    using roll_pad_row[OF ne _ assms(4), of i] i la
    by (simp add: length_slice_inner length_np_roll1 length_pad_edge)
qed

lemma map2_map2_nth:
  assumes "has_shape h w a" "has_shape h w b" "i < h" "j < w"
  shows "map2 (map2 f) a b ! i ! j = f (a ! i ! j) (b ! i ! j)"
  using assms by (simp add: has_shape_def list_all_length)

lemma map2_map2_shape:
  assumes "has_shape h w a" "has_shape h w b"
  shows "has_shape h w (map2 (map2 f) a b)"
  using assms by (simp add: has_shape_def list_all_length)

lemma map_map_nth:
  assumes "has_shape h w a" "i < h" "j < w"
  shows "map (map f) a ! i ! j = f (a ! i ! j)"
  using assms by (simp add: has_shape_def list_all_length)

lemma map_map_shape: "has_shape h w a \<Longrightarrow> has_shape h w (map (map f) a)"
  by (simp add: has_shape_def list_all_length)

lemma squeeze_keeps_2d_shape:
  assumes "squeeze_keeps_2d a"
  shows "has_shape (length a) (length (hd a)) a" "0 < length a" "0 < length (hd a)"
  using assms by (auto simp: squeeze_keeps_2d_def has_shape_def)

lemma where_eq_roll_nth:
  assumes "has_shape h w a" "0 < h" "0 < w" "i < h" "j < w"
    "shift0 sh = 1 \<or> shift0 sh = 0 \<or> shift0 sh = -1"
    "shift1 sh = 1 \<or> shift1 sh = 0 \<or> shift1 sh = -1"
  shows "where_eq (roll (np_pad_edge 1 a) sh) a ! i ! j =
         (if a ! clamp_idx h (- shift0 sh) i ! clamp_idx w (- shift1 sh) j = a ! i ! j then 1 else 0)"
proof -
  have "where_eq (roll (np_pad_edge 1 a) sh) a ! i ! j =
        (if roll (np_pad_edge 1 a) sh ! i ! j = a ! i ! j then 1 else 0)"
    unfolding where_eq_def
    by (rule map2_map2_nth[OF roll_pad_shape[OF assms(1,2,3,6)] assms(1,4,5)])
  then show ?thesis by (simp only: roll_pad_nth[OF assms])
qed

lemma where_eq_roll_shape:
  assumes "has_shape h w a" "0 < h" "0 < w"
    "shift0 sh = 1 \<or> shift0 sh = 0 \<or> shift0 sh = -1"
  shows "has_shape h w (where_eq (roll (np_pad_edge 1 a) sh) a)"
  unfolding where_eq_def
  by (rule map2_map2_shape[OF roll_pad_shape[OF assms] assms(1)])

lemma add2_nth:
  "has_shape h w a \<Longrightarrow> has_shape h w b \<Longrightarrow> i < h \<Longrightarrow> j < w \<Longrightarrow> add2 a b ! i ! j = a ! i ! j + b ! i ! j"
  unfolding add2_def by (rule map2_map2_nth)

lemma add2_shape: "has_shape h w a \<Longrightarrow> has_shape h w b \<Longrightarrow> has_shape h w (add2 a b)"
  unfolding add2_def by (rule map2_map2_shape)

lemma mul2_nth:
  "has_shape h w a \<Longrightarrow> has_shape h w b \<Longrightarrow> i < h \<Longrightarrow> j < w \<Longrightarrow> mul2 a b ! i ! j = a ! i ! j * b ! i ! j"
  unfolding mul2_def by (rule map2_map2_nth)

lemma mul2_shape: "has_shape h w a \<Longrightarrow> has_shape h w b \<Longrightarrow> has_shape h w (mul2 a b)"
  unfolding mul2_def by (rule map2_map2_shape)

lemma length_filter_sum:
  "int (length (filter P xs)) = sum_list (map (\<lambda>x. if P x then 1 else 0) xs)"
  by (induction xs) simp_all

lemma equal_neighbours_sum:
  "int (equal_neighbours a i j) =
     (\<Sum>(di, dj)\<leftarrow>neighbour_offsets.
        if a ! clamp_idx (length a) di i ! clamp_idx (length (hd a)) dj j = a ! i ! j then 1 else 0)"
  by (simp add: equal_neighbours_def neighbour_values_def length_filter_sum comp_def
      case_prod_unfold)

lemma focal_compare_nth:
  assumes "squeeze_keeps_2d arr" "i < length arr" "j < length (hd arr)"
  shows "\<exists>out. focal_compare arr = Inr out \<and> has_shape (length arr) (length (hd arr)) out \<and>
           out ! i ! j = (if arr ! i ! j > 0 then 1 + int (equal_neighbours arr i j) else 0)"
proof -
  define h w where "h = length arr" and "w = length (hd arr)"
  note sh = squeeze_keeps_2d_shape[OF assms(1), folded h_def w_def]
  have ij: "i < h" "j < w" using assms by (simp_all add: h_def w_def)
  define nb where "nb = (\<lambda>s. where_eq (roll (np_pad_edge 1 arr) s) arr)"
  have nbs: "has_shape h w (nb s)"
    if "shift0 s = 1 \<or> shift0 s = 0 \<or> shift0 s = -1" for s
    unfolding nb_def using sh that by (rule where_eq_roll_shape)
  have nbn: "nb s ! i ! j =
      (if arr ! clamp_idx h (- shift0 s) i ! clamp_idx w (- shift1 s) j = arr ! i ! j then 1 else 0)"
    if "shift0 s = 1 \<or> shift0 s = 0 \<or> shift0 s = -1"
       "shift1 s = 1 \<or> shift1 s = 0 \<or> shift1 s = -1" for s
    unfolding nb_def using sh ij that by (rule where_eq_roll_nth)
  have o0s: "has_shape h w (where_pos arr)"
    unfolding where_pos_def using sh(1) by (rule map_map_shape)
  have o0n: "where_pos arr ! i ! j = (if arr ! i ! j > 0 then 1 else 0)"
    unfolding where_pos_def using sh(1) ij by (rule map_map_nth)
  define total where "total = sum_axis0 [where_pos arr, nb (Axis0 1), nb (Axis0 (- 1)), nb (Axis1 1),
      nb (Axis1 (- 1)), nb (Axes01 1 1), nb (Axes01 1 (- 1)), nb (Axes01 (- 1) 1),
      nb (Axes01 (- 1) (- 1))]"
  have ts: "has_shape h w total"
    unfolding total_def sum_axis0_def by (simp add: add2_shape nbs o0s)
  have tn: "total ! i ! j = (if arr ! i ! j > 0 then 1 else 0) + int (equal_neighbours arr i j)"
    unfolding total_def sum_axis0_def
    by (simp add: add2_nth[where h=h and w=w] add2_shape nbs o0s ij nbn o0n equal_neighbours_sum
        neighbour_offsets_def h_def[symmetric] w_def[symmetric] split del: if_split)
  have "focal_compare arr = Inr (mul2 total (where_pos arr))"
    using assms(1) by (simp add: focal_compare_def total_def nb_def Let_def)
  moreover have "has_shape h w (mul2 total (where_pos arr))"
    using ts o0s by (rule mul2_shape)
  moreover have "mul2 total (where_pos arr) ! i ! j =
      (if arr ! i ! j > 0 then 1 + int (equal_neighbours arr i j) else 0)"
    using mul2_nth[OF ts o0s ij] by (simp add: tn o0n)
  ultimately show ?thesis by (simp add: h_def w_def)
qed

lemma focal_stat_sum_nth:
  assumes "squeeze_keeps_2d arr" "i < length arr" "j < length (hd arr)"
  shows "\<exists>out. focal_stat_sum arr = Inr out \<and> has_shape (length arr) (length (hd arr)) out \<and>
           out ! i ! j = window_sum arr i j"
proof -
  define h w where "h = length arr" and "w = length (hd arr)"
  note sh = squeeze_keeps_2d_shape[OF assms(1), folded h_def w_def]
  have ij: "i < h" "j < w" using assms by (simp_all add: h_def w_def)
  define nb where "nb = (\<lambda>s. roll (np_pad_edge 1 arr) s)"
  have nbs: "has_shape h w (nb s)"
    if "shift0 s = 1 \<or> shift0 s = 0 \<or> shift0 s = -1" for s
    unfolding nb_def using sh that by (rule roll_pad_shape)
  have nbn: "nb s ! i ! j = arr ! clamp_idx h (- shift0 s) i ! clamp_idx w (- shift1 s) j"
    if "shift0 s = 1 \<or> shift0 s = 0 \<or> shift0 s = -1"
       "shift1 s = 1 \<or> shift1 s = 0 \<or> shift1 s = -1" for s
    unfolding nb_def using sh ij that by (rule roll_pad_nth)
  define total where "total = sum_axis0 [arr, nb (Axis0 1), nb (Axis0 (- 1)), nb (Axis1 1),
      nb (Axis1 (- 1)), nb (Axes01 1 1), nb (Axes01 1 (- 1)), nb (Axes01 (- 1) 1),
      nb (Axes01 (- 1) (- 1))]"
  have ts: "has_shape h w total"
    unfolding total_def sum_axis0_def by (simp add: add2_shape nbs sh(1))
  have tn: "total ! i ! j = window_sum arr i j"
    unfolding total_def sum_axis0_def
    by (simp add: add2_nth[where h=h and w=w] add2_shape nbs sh(1) ij nbn window_sum_def neighbour_sum_def
        neighbour_values_def neighbour_offsets_def h_def[symmetric] w_def[symmetric])
  have "focal_stat_sum arr = Inr total"
    using assms(1) by (simp add: focal_stat_sum_def total_def nb_def Let_def)
  then show ?thesis using ts tn by (simp add: h_def w_def)
qed

lemma crop_indicator_2d: "squeeze_keeps_2d a \<Longrightarrow> squeeze_keeps_2d (crop_indicator a)"
  by (cases a) (auto simp: squeeze_keeps_2d_def crop_indicator_def list_all_iff)

lemma crop_indicator_dims:
  "length (crop_indicator a) = length a" "a \<noteq> [] \<Longrightarrow> length (hd (crop_indicator a)) = length (hd a)"
  by (cases a; simp add: crop_indicator_def)+

lemma fragment_cleanup_nth:
  assumes "squeeze_keeps_2d labels_array" "i < length labels_array" "j < length (hd labels_array)"
  shows "\<exists>out. fragment_cleanup labels_array = Inr out \<and>
           out ! i ! j =
             (if window_sum (crop_indicator labels_array) i j < 2 then 0
              else if window_sum (crop_indicator labels_array) i j < 4 then EDGE_CLASS
              else labels_array ! i ! j)"
proof -
  define h w where "h = length labels_array" and "w = length (hd labels_array)"
  note sh = squeeze_keeps_2d_shape[OF assms(1), folded h_def w_def]
  have ij: "i < h" "j < w" using assms by (simp_all add: h_def w_def)
  have ne: "labels_array \<noteq> []" using sh(2) by (auto simp: h_def)
  let ?c = "crop_indicator labels_array"
  have c2: "squeeze_keeps_2d ?c" using assms(1) by (rule crop_indicator_2d)
  have lc: "length ?c = h" "length (hd ?c) = w"
    using ne by (simp_all add: crop_indicator_dims h_def w_def)
  obtain fs where fs: "focal_stat_sum ?c = Inr fs" "has_shape h w fs"
      "fs ! i ! j = window_sum ?c i j"
    using focal_stat_sum_nth[OF c2, of i j] ij lc by auto
  have "fragment_cleanup labels_array =
      Inr (map2 (map2 (\<lambda>s l. if s < 2 then 0 else if s < 4 then EDGE_CLASS else l)) fs labels_array)"
    by (simp add: fragment_cleanup_def fs(1))
  moreover have "map2 (map2 (\<lambda>s l. if s < 2 then 0 else if s < 4 then EDGE_CLASS else l)) fs labels_array ! i ! j
      = (if fs ! i ! j < 2 then 0 else if fs ! i ! j < 4 then EDGE_CLASS else labels_array ! i ! j)"
    by (rule map2_map2_nth[OF fs(2) sh(1) ij])
  ultimately show ?thesis by (simp add: fs(3))
qed

lemma edge_candidates_nth:
  assumes "has_shape h w s" "i < h" "j < w"
  shows "edge_candidates s ! i ! j = (if s ! i ! j > 0 \<and> s ! i ! j < 8 then 1 else 0)"
  unfolding edge_candidates_def using assms by (rule map_map_nth)

text \<open>
  C4 (as amended). At every foreground pixel the score of \<^verbatim>\<open>focal_compare\<close> is one
  more than the number of its eight edge-padded neighbours that equal the centre (the
  foreground indicator of the centre is summed with the eight comparisons), and it is 0 at
  every background pixel. The edge-candidate mask, the pixels with a score strictly
  between 0 and 8, therefore holds the foreground pixels with at most six equal neighbours.
\<close>

theorem focal_compare_score:
  assumes "squeeze_keeps_2d arr" "i < length arr" "j < length (hd arr)"
  shows "\<exists>score. focal_compare arr = Inr score \<and>
           score ! i ! j = (if arr ! i ! j > 0 then 1 + int (equal_neighbours arr i j) else 0) \<and>
           edge_candidates score ! i ! j =
             (if arr ! i ! j > 0 \<and> equal_neighbours arr i j < 7 then 1 else 0)"
proof -
  obtain score where s: "focal_compare arr = Inr score"
      "has_shape (length arr) (length (hd arr)) score"
      "score ! i ! j = (if arr ! i ! j > 0 then 1 + int (equal_neighbours arr i j) else 0)"
    using focal_compare_nth[OF assms] by blast
  have "edge_candidates score ! i ! j = (if score ! i ! j > 0 \<and> score ! i ! j < 8 then 1 else 0)"
    using s(2) assms(2,3) by (rule edge_candidates_nth)
  then have "edge_candidates score ! i ! j =
      (if arr ! i ! j > 0 \<and> equal_neighbours arr i j < 7 then 1 else 0)"
    by (simp add: s(3))
  with s(1,3) show ?thesis by blast
qed

theorem focal_compare_score_witness:
  "squeeze_keeps_2d [[1, 1, 0, 0], [1, 2, 0, 0], [0, 0, 0, 3::int]] \<and>
   (\<exists>score. focal_compare [[1, 1, 0, 0], [1, 2, 0, 0], [0, 0, 0, 3]] = Inr score \<and>
      score ! 0 ! 0 = 8 \<and> edge_candidates score ! 0 ! 0 = 0)"
proof -
  have h: "squeeze_keeps_2d [[1, 1, 0, 0], [1, 2, 0, 0], [0, 0, 0, 3::int]]"
    by (simp add: squeeze_keeps_2d_def)
  have e: "equal_neighbours [[1, 1, 0, 0], [1, 2, 0, 0], [0, 0, 0, 3]] 0 0 = 7"
    by code_simp
  show ?thesis
    using h focal_compare_score[OF h, of 0 0] by (simp add: e)
qed

text \<open>
  C4 (as stated) fails: in a uniform 3 x 3 block the centre has eight equal neighbours
  and the score is 9.
\<close>

theorem focal_compare_uniform_block:
  "focal_compare [[1, 1, 1], [1, 1, 1], [1, 1, 1]] = Inr [[9, 9, 9], [9, 9, 9], [9, 9, 9]] \<and>
   equal_neighbours [[1, 1, 1], [1, 1, 1], [1, 1, 1]] 1 1 = 8"
  by code_simp

text \<open>
  C7 (as amended). In the fragment clean-up, with \<^verbatim>\<open>s\<close> the sum of the crop indicator
  over the 3 x 3 edge-padded window of a pixel, the pixel itself included: the pixel
  becomes background when \<^verbatim>\<open>s < 2\<close>, edge when \<^verbatim>\<open>2 \<le> s < 4\<close>, and keeps its current
  label otherwise.
\<close>

theorem fragment_cleanup_window:
  assumes "squeeze_keeps_2d labels_array" "i < length labels_array" "j < length (hd labels_array)"
  shows "\<exists>out. fragment_cleanup labels_array = Inr out \<and>
           out ! i ! j =
             (if window_sum (crop_indicator labels_array) i j < 2 then 0
              else if window_sum (crop_indicator labels_array) i j < 4 then EDGE_CLASS
              else labels_array ! i ! j)"
  using assms by (rule fragment_cleanup_nth)

theorem fragment_cleanup_window_witness:
  "squeeze_keeps_2d [[1, 1, 1, 1], [1, 1, 1, 1], [2, 2, 0, 1], [0, 0, 0, 0::int]] \<and>
   (\<exists>out. fragment_cleanup [[1, 1, 1, 1], [1, 1, 1, 1], [2, 2, 0, 1], [0, 0, 0, 0]] = Inr out \<and>
      out ! 2 ! 2 = 0 \<and> out ! 3 ! 3 = 2 \<and> out ! 0 ! 0 = 1)"
proof -
  let ?a = "[[1, 1, 1, 1], [1, 1, 1, 1], [2, 2, 0, 1], [0, 0, 0, 0::int]]"
  have h: "squeeze_keeps_2d ?a" by (simp add: squeeze_keeps_2d_def)
  have w: "window_sum (crop_indicator ?a) 2 2 = 4" "window_sum (crop_indicator ?a) 3 3 = 2"
    "window_sum (crop_indicator ?a) 0 0 = 9"
    by code_simp+
  show ?thesis
    using h fragment_cleanup_window[OF h, of 2 2] fragment_cleanup_window[OF h, of 3 3]
      fragment_cleanup_window[OF h, of 0 0]
    by (auto simp: w EDGE_CLASS_def)
qed

text \<open>
  C7 (as stated) fails: the crop pixel at row 1, column 1 has a single crop pixel among
  its eight neighbours, a sum below 2, and is set to the edge class, not to background.
\<close>

theorem fragment_cleanup_pair:
  "fragment_cleanup [[0, 0, 0, 0], [0, 1, 1, 0], [0, 0, 0, 0], [0, 0, 0, 0]]
     = Inr [[0, 2, 2, 0], [0, 2, 2, 0], [0, 2, 2, 0], [0, 0, 0, 0]] \<and>
   neighbour_sum (crop_indicator [[0, 0, 0, 0], [0, 1, 1, 0], [0, 0, 0, 0], [0, 0, 0, 0]]) 1 1 = 1"
  by code_simp

section \<open>Properties of edge-gap closing\<close>

text \<open>
  C8. On a 3 x 3 array whose only class-1 pixel is the centre, the top border receives
  the pattern of row 1. The bottom border, the left border and the right border are read
  from themselves (rows and columns \<^verbatim>\<open>-1\<close>, \<^verbatim>\<open>0\<close>, \<^verbatim>\<open>-1\<close>) and stay empty, where
  the patterns of row \<^verbatim>\<open>-2\<close>, column 1 and column \<^verbatim>\<open>-2\<close> would each mark the middle pixel
  of the border.
\<close>

theorem close_edge_ends_centre_pixel:
  "close_edge_ends [[0, 0, 0], [0, 1, 0], [0, 0, 0]] = Inr [[0, 1, 0], [0, 1, 0], [0, 0, 0]]"
  by code_simp

lemma same_shape_dims:
  assumes "same_shape a b"
  shows "has_shape (length a) (length (hd a)) a" "has_shape (length a) (length (hd a)) b"
  using assms by (simp_all add: same_shape_def has_shape_def)

section \<open>Properties of the segment operations\<close>

text \<open>
  C5. A 5 x 5 label array with ten background pixels and five pixels of each of the
  classes 1, 2 and 3, no edge pixel, in multi-class mode. The mask is a single
  component (the labelling of the all-ones mask is the mask itself). Its crop fraction
  is 15/25, above one half, yet the whole component is set to background: the mode is
  taken over all labels of the component, the zeros included, where the mode of the
  non-zero labels is 1.
\<close>

theorem make_crops_uniform_mode_counts_background:
  "make_crops_uniform (\<lambda>m. m)
     [[0, 0, 0, 0, 0], [0, 0, 0, 0, 0], [1, 1, 1, 1, 1], [2, 2, 2, 2, 2], [3, 3, 3, 3, 3]]
     [[0, 0, 0, 0, 0], [0, 0, 0, 0, 0], [0, 0, 0, 0, 0], [0, 0, 0, 0, 0], [0, 0, 0, 0, 0]]
     ''crops''
   = Inr ([[0, 0, 0, 0, 0], [0, 0, 0, 0, 0], [0, 0, 0, 0, 0], [0, 0, 0, 0, 0], [0, 0, 0, 0, 0]],
          [[1, 1, 1, 1, 1], [1, 1, 1, 1, 1], [1, 1, 1, 1, 1], [1, 1, 1, 1, 1], [1, 1, 1, 1, 1]]) \<and>
   stats_mode (filter (\<lambda>v. v \<noteq> 0)
     (concat [[0, 0, 0, 0, 0], [0, 0, 0, 0, 0], [1, 1, 1, 1, 1], [2, 2, 2, 2, 2], [3, 3, 3, 3, 3]])) = 1"
  by code_simp

text \<open>
  C6. The label array before recoding holds a 3 x 3 field: a crop pixel (class 1) inside
  a ring of edge pixels (class 2). \<^verbatim>\<open>recode_crop_labels\<close> returns its copy as
  \<^verbatim>\<open>edges\<close>; the recoded labels are crop on the pixels that were background. The
  non-edge mask has one component, the outer ring. After \<^verbatim>\<open>make_crops_uniform\<close> and
  \<^verbatim>\<open>check_slivers\<close> the eight pixels that carried the edge class are background and
  the pixel that carried the crop class carries the edge class: the re-imposition tests
  \<^verbatim>\<open>edges == 1\<close>, and the edge class is 2.
\<close>

theorem check_slivers_edge_class_not_restored:
  "make_crops_uniform
     (\<lambda>m. [[1, 1, 1, 1, 1], [1, 0, 0, 0, 1], [1, 0, 0, 0, 1], [1, 0, 0, 0, 1], [1, 1, 1, 1, 1]])
     [[1, 1, 1, 1, 1], [1, 0, 0, 0, 1], [1, 0, 0, 0, 1], [1, 0, 0, 0, 1], [1, 1, 1, 1, 1]]
     [[0, 0, 0, 0, 0], [0, 2, 2, 2, 0], [0, 2, 1, 2, 0], [0, 2, 2, 2, 0], [0, 0, 0, 0, 0]]
     ''boundaries''
   = Inr ([[1, 1, 1, 1, 1], [1, 0, 0, 0, 1], [1, 0, 0, 0, 1], [1, 0, 0, 0, 1], [1, 1, 1, 1, 1]],
          [[1, 1, 1, 1, 1], [1, 0, 0, 0, 1], [1, 0, 0, 0, 1], [1, 0, 0, 0, 1], [1, 1, 1, 1, 1]]) \<and>
   check_slivers
     [[1, 1, 1, 1, 1], [1, 0, 0, 0, 1], [1, 0, 0, 0, 1], [1, 0, 0, 0, 1], [1, 1, 1, 1, 1]]
     [[0, 0, 0, 0, 0], [0, 2, 2, 2, 0], [0, 2, 1, 2, 0], [0, 2, 2, 2, 0], [0, 0, 0, 0, 0]]
     [[1, 1, 1, 1, 1], [1, 0, 0, 0, 1], [1, 0, 0, 0, 1], [1, 0, 0, 0, 1], [1, 1, 1, 1, 1]]
   = Inr ([[1, 1, 1, 1, 1], [1, 0, 0, 0, 1], [1, 0, 2, 0, 1], [1, 0, 0, 0, 1], [1, 1, 1, 1, 1]],
          [\<lparr>label = 1, bbox = (0, 0, 5, 5)\<rparr>])"
  by code_simp

section \<open>Properties of the boundary distances\<close>

lemma clip_nan_to_num_range: "in_unit_interval (nan_to_num (fl_clip01 v))"
  by (cases v) auto

lemma clip_nan_to_num_special:
  "\<not> is_finite v \<Longrightarrow> nonneg_fl v \<Longrightarrow> nan_to_num (fl_clip01 v) = Fin 1"
  by (cases v) auto

lemma clip_nan_to_num_tenth: "nan_to_num (fl_clip01 (Fin (1 / 10))) = Fin (1 / 10)"
  by simp

lemma fl_div_nonneg: "nonneg_fl a \<Longrightarrow> nonneg_fl b \<Longrightarrow> nonneg_fl (fl_div a b)"
  by (cases a; cases b) auto

lemma fl_max2_nonneg: "nonneg_fl a \<Longrightarrow> nonneg_fl b \<Longrightarrow> nonneg_fl (fl_max2 a b)"
  by (cases a; cases b) auto

lemma foldl_fl_max2_nonneg:
  "nonneg_fl x \<Longrightarrow> list_all nonneg_fl xs \<Longrightarrow> nonneg_fl (foldl fl_max2 x xs)"
  by (induction xs arbitrary: x) (auto simp: fl_max2_nonneg)

lemma fl_max_nonneg: "list_all nonneg_fl xs \<Longrightarrow> nonneg_fl (fl_max xs)"
  by (cases xs) (auto simp: foldl_fl_max2_nonneg)

lemma window_where_length: "length (window_where bb segments lab f b) = length b"
  by (simp add: window_where_def)

lemma window_where_row_length:
  "i < length b \<Longrightarrow> length (window_where bb segments lab f b ! i) = length (b ! i)"
  by (simp add: window_where_def)

lemma window_where_nth:
  "i < length b \<Longrightarrow> j < length (b ! i) \<Longrightarrow>
   window_where bb segments lab f b ! i ! j =
     (if in_bbox bb i j \<and> segments ! i ! j = lab then f (b ! i ! j) else b ! i ! j)"
  by (simp add: window_where_def)

lemma normalize_step_length: "length (normalize_step segments p b) = length b"
  by (simp add: normalize_step_def window_where_length)

lemma normalize_step_row_length:
  "i < length b \<Longrightarrow> length (normalize_step segments p b ! i) = length (b ! i)"
  by (simp add: normalize_step_def window_where_row_length)

lemma normalize_step_shape: "has_shape h w b \<Longrightarrow> has_shape h w (normalize_step segments p b)"
  by (simp add: has_shape_def list_all_length normalize_step_length normalize_step_row_length)

lemma normalize_step_other:
  assumes "i < length b" "j < length (b ! i)" "segments ! i ! j \<noteq> label p"
  shows "normalize_step segments p b ! i ! j = b ! i ! j"
  using assms by (simp add: normalize_step_def window_where_nth)

lemma normalize_step_thin:
  assumes "i < length b" "j < length (b ! i)" "segments ! i ! j = label p"
    "0 < label p" "thin_bbox (bbox p)" "in_bbox (bbox p) i j"
  shows "normalize_step segments p b ! i ! j = Fin (1 / 10)"
  using assms by (simp add: normalize_step_def window_where_nth)

lemma normalize_loop_shape:
  "has_shape h w b \<Longrightarrow> has_shape h w (normalize_loop segments props b)"
  by (induction props arbitrary: b) (auto simp: normalize_step_shape)

lemma normalize_loop_other:
  assumes "has_shape h w b" "i < h" "j < w" "segments ! i ! j \<notin> label ` set props"
  shows "normalize_loop segments props b ! i ! j = b ! i ! j"
  using assms
proof (induction props arbitrary: b)
  case Nil
  then show ?case by simp
next
  case (Cons p props)
  have s: "has_shape h w (normalize_step segments p b)"
    using Cons.prems(1) by (rule normalize_step_shape)
  have "normalize_loop segments props (normalize_step segments p b) ! i ! j
        = normalize_step segments p b ! i ! j"
    using Cons.IH[OF s Cons.prems(2,3)] Cons.prems(4) by simp
  also have "\<dots> = b ! i ! j"
    using Cons.prems by (intro normalize_step_other) (auto simp: has_shape_def list_all_length)
  finally show ?case by simp
qed

lemma normalize_loop_thin:
  assumes "has_shape h w b" "i < h" "j < w" "distinct (map label props)"
    "p \<in> set props" "segments ! i ! j = label p" "0 < label p" "thin_bbox (bbox p)"
    "in_bbox (bbox p) i j"
  shows "normalize_loop segments props b ! i ! j = Fin (1 / 10)"
  using assms(1,4,5)
proof (induction props arbitrary: b)
  case Nil
  then show ?case by simp
next
  case (Cons q props)
  have s: "has_shape h w (normalize_step segments q b)"
    using Cons.prems(1) by (rule normalize_step_shape)
  have ib: "i < length b" "j < length (b ! i)"
    using Cons.prems(1) assms(2,3) by (auto simp: has_shape_def list_all_length)
  show ?case
  proof (cases "q = p")
    case True
    have "segments ! i ! j \<notin> label ` set props"
      using Cons.prems(2) True assms(6) by auto
    then have "normalize_loop segments props (normalize_step segments q b) ! i ! j
        = normalize_step segments q b ! i ! j"
      using normalize_loop_other[OF s assms(2,3)] by simp
    also have "\<dots> = Fin (1 / 10)"
      unfolding True using ib assms(6,7,8,9) by (rule normalize_step_thin)
    finally show ?thesis by simp
  next
    case False
    then have "p \<in> set props" using Cons.prems(3) by simp
    moreover have "distinct (map label props)" using Cons.prems(2) by simp
    ultimately show ?thesis using Cons.IH[OF s] by simp
  qed
qed

lemma sorted_hd_last:
  assumes "sorted xs" "x \<in> set xs"
  shows "hd xs \<le> (x::nat)" "x \<le> last xs"
proof -
  obtain k where k: "k < length xs" "xs ! k = x" using assms(2) by (auto simp: in_set_conv_nth)
  have ne: "xs \<noteq> []" using assms(2) by auto
  have "xs ! 0 \<le> xs ! k" using assms(1) k(1) by (simp add: sorted_nth_mono)
  then show "hd xs \<le> x" using ne k(2) by (simp add: hd_conv_nth)
  have "xs ! k \<le> xs ! (length xs - 1)" using assms(1) k(1) ne by (simp add: sorted_nth_mono)
  then show "x \<le> last xs" using ne k(2) by (simp add: last_conv_nth)
qed

lemma bbox_of_contains:
  assumes "has_shape h w segments" "i < h" "j < w"
  shows "in_bbox (bbox_of segments (segments ! i ! j)) i j"
proof -
  define lab where "lab = segments ! i ! j"
  have len: "length segments = h" "length (segments ! i) = w"
    using assms by (auto simp: has_shape_def list_all_length)
  have hw: "length (hd segments) = w"
    using assms(1,2) by (cases segments) (auto simp: has_shape_def)
  have "lab \<in> set (segments ! i)" using len assms(3) by (simp add: lab_def)
  then have ri: "i \<in> set (rows_with segments lab)"
    using assms(2) len by (simp add: rows_with_def)
  have "segments ! i \<in> set segments" using assms(2) len by simp
  then have "list_ex (\<lambda>r. r ! j = lab) segments" by (auto simp: list_ex_iff lab_def)
  then have cj: "j \<in> set (cols_with segments lab)"
    using assms(3) hw by (simp add: cols_with_def)
  have sr: "sorted (rows_with segments lab)" and sc: "sorted (cols_with segments lab)"
    by (simp_all add: rows_with_def cols_with_def sorted_wrt_filter)
  show ?thesis
    using sorted_hd_last[OF sr ri] sorted_hd_last[OF sc cj]
    by (simp add: bbox_of_def lab_def[symmetric])
qed

lemma regionprops_labels:
  "map label (regionprops segments) = filter (\<lambda>lab. 0 < lab) (np_unique segments)"
  by (simp add: regionprops_def comp_def)

lemma regionprops_distinct: "distinct (map label (regionprops segments))"
  by (simp add: regionprops_labels np_unique_def)

lemma regionprops_member:
  assumes "has_shape h w segments" "i < h" "j < w" "0 < segments ! i ! j"
  shows "\<lparr>label = segments ! i ! j, bbox = bbox_of segments (segments ! i ! j)\<rparr>
           \<in> set (regionprops segments)"
proof -
  have len: "length segments = h" "length (segments ! i) = w"
    using assms by (auto simp: has_shape_def list_all_length)
  have "segments ! i ! j \<in> set (segments ! i)" using len assms(3) by simp
  moreover have "segments ! i \<in> set segments" using len assms(2) by simp
  ultimately have "segments ! i ! j \<in> set (concat segments)" by auto
  then have "segments ! i ! j \<in> set (filter (\<lambda>lab. 0 < lab) (np_unique segments))"
    using assms(4) by (simp add: np_unique_def)
  then show ?thesis by (auto simp: regionprops_def)
qed

lemma select_where_subset: "set (select_where b segments lab) \<subseteq> set (concat b)"
  by (auto simp: select_where_def dest: set_zip_leftD)

lemma select_where_nonneg:
  assumes "list_all (list_all nonneg_fl) b"
  shows "list_all nonneg_fl (select_where b segments lab)"
  using assms select_where_subset[of b segments lab]
  by (auto simp: list_all_iff)

lemma normalize_step_nonneg:
  assumes "list_all (list_all nonneg_fl) b"
  shows "list_all (list_all nonneg_fl) (normalize_step segments p b)"
proof -
  have m: "nonneg_fl (max_intensity segments (label p) b)"
    unfolding max_intensity_def by (rule fl_max_nonneg[OF select_where_nonneg[OF assms]])
  have b: "nonneg_fl (b ! i ! j)" if "i < length b" "j < length (b ! i)" for i j
    using assms that by (simp add: list_all_length)
  show ?thesis
    unfolding list_all_length
    by (auto simp: normalize_step_def window_where_length window_where_row_length
        window_where_nth b m fl_div_nonneg)
qed

lemma normalize_loop_nonneg:
  "list_all (list_all nonneg_fl) b \<Longrightarrow> list_all (list_all nonneg_fl) (normalize_loop segments props b)"
  by (induction props arbitrary: b) (auto simp: normalize_step_nonneg)

text \<open>
  C3. Let the labelling and the distance transform keep the shape of the mask, let the
  distances and the cell size be non-negative (a distance transform scaled by a cell
  size). Then \<^verbatim>\<open>normalize_boundary_distances\<close> returns a field in which every value is a
  finite number in \<^verbatim>\<open>[0, 1]\<close>; a pixel whose value before the last line is NaN or
  infinite has the value 1; and every pixel of a component whose bounding box has a
  height or width of at most one pixel has the value 0.1.
\<close>

theorem normalize_boundary_distances_bounded:
  fixes nd_label distance_transform celly labels_array train_type
  defines "m \<equiv> boundary_mask labels_array train_type"
  assumes shape: "same_shape (nd_label m) (distance_transform m)"
    and dist: "list_all (list_all (\<lambda>d. 0 \<le> d)) (distance_transform m)"
    and cell: "0 \<le> celly"
    and i: "i < length (nd_label m)" and j: "j < length (hd (nd_label m))"
  shows "\<exists>out. normalize_boundary_distances nd_label distance_transform celly labels_array train_type
                 = Inr out \<and>
           in_unit_interval (out ! i ! j) \<and>
           (is_finite (normalized_unclipped nd_label distance_transform celly labels_array train_type ! i ! j)
            \<or> out ! i ! j = Fin 1) \<and>
           (0 < nd_label m ! i ! j \<and> thin_bbox (bbox_of (nd_label m) (nd_label m ! i ! j))
            \<longrightarrow> out ! i ! j = Fin (1 / 10))"
proof -
  define segments where "segments = nd_label m"
  define h w where "h = length segments" and "w = length (hd segments)"
  define b0 where "b0 = map (map (\<lambda>d. Fin (d * celly))) (distance_transform m)"
  define pre where "pre = normalize_loop segments (regionprops segments) b0"
  have ss: "has_shape h w segments" and sd: "has_shape h w (distance_transform m)"
    using same_shape_dims[OF shape] by (simp_all add: segments_def h_def w_def)
  have sb0: "has_shape h w b0" unfolding b0_def using sd by (rule map_map_shape)
  have ij: "i < h" "j < w" using i j by (simp_all add: h_def w_def segments_def)
  have same: "same_shape segments b0"
    using shape by (simp add: same_shape_def b0_def segments_def list_all_length)
  have cbd: "create_boundary_distances nd_label distance_transform celly labels_array train_type
      = (m, segments, b0)"
    by (simp add: create_boundary_distances_def m_def segments_def b0_def Let_def)
  have pre_eq: "normalized_unclipped nd_label distance_transform celly labels_array train_type = pre"
    by (simp add: normalized_unclipped_def cbd pre_def)
  define out where "out = map (map (\<lambda>v. nan_to_num (fl_clip01 v))) pre"
  have res: "normalize_boundary_distances nd_label distance_transform celly labels_array train_type
      = Inr out"
    using same by (simp add: normalize_boundary_distances_def cbd out_def pre_def)
  have sp: "has_shape h w pre" unfolding pre_def using sb0 by (rule normalize_loop_shape)
  have o: "out ! i ! j = nan_to_num (fl_clip01 (pre ! i ! j))"
    unfolding out_def using sp ij by (rule map_map_nth)
  have r1: "in_unit_interval (out ! i ! j)" by (simp add: o clip_nan_to_num_range)
  have "list_all (list_all nonneg_fl) b0"
    using dist cell by (simp add: b0_def list_all_iff)
  then have "list_all (list_all nonneg_fl) pre"
    unfolding pre_def by (rule normalize_loop_nonneg)
  then have nn: "nonneg_fl (pre ! i ! j)"
    using sp ij by (simp add: has_shape_def list_all_length)
  have r2: "is_finite (pre ! i ! j) \<or> out ! i ! j = Fin 1"
    using nn clip_nan_to_num_special[of "pre ! i ! j"] by (auto simp: o)
  have r3: "out ! i ! j = Fin (1 / 10)"
    if t: "0 < segments ! i ! j" "thin_bbox (bbox_of segments (segments ! i ! j))"
  proof -
    let ?p = "\<lparr>label = segments ! i ! j, bbox = bbox_of segments (segments ! i ! j)\<rparr>"
    have mem: "?p \<in> set (regionprops segments)"
      using ss ij t(1) by (rule regionprops_member)
    have "pre ! i ! j = Fin (1 / 10)"
      unfolding pre_def
      using sb0 ij regionprops_distinct mem
      by (rule normalize_loop_thin) (use t bbox_of_contains[OF ss ij] in simp_all)
    then show ?thesis by (simp add: o)
  qed
  show ?thesis
    using res r1 r2 r3 by (auto simp: pre_eq segments_def)
qed

theorem normalize_boundary_distances_bounded_witness:
  "same_shape ((\<lambda>m. [[1, 1, 0, 2], [1, 1, 0, 0], [0, 0, 0, 3::int]])
       (boundary_mask [[1, 1, 0, 1], [1, 1, 0, 0], [0, 0, 0, 1]] ''Polygon''))
     ((\<lambda>m. [[2, 1, 0, 1], [1, 1, 0, 0], [0, 0, 0, 1::real]])
       (boundary_mask [[1, 1, 0, 1], [1, 1, 0, 0], [0, 0, 0, 1]] ''Polygon'')) \<and>
   (\<exists>out. normalize_boundary_distances (\<lambda>m. [[1, 1, 0, 2], [1, 1, 0, 0], [0, 0, 0, 3]])
        (\<lambda>m. [[2, 1, 0, 1], [1, 1, 0, 0], [0, 0, 0, 1]]) 10
        [[1, 1, 0, 1], [1, 1, 0, 0], [0, 0, 0, 1]] ''Polygon'' = Inr out \<and>
      in_unit_interval (out ! 0 ! 3) \<and> out ! 0 ! 3 = Fin (1 / 10))"
proof -
  let ?N = "\<lambda>m::int arr2. [[1, 1, 0, 2], [1, 1, 0, 0], [0, 0, 0, 3::int]]"
  let ?D = "\<lambda>m::int arr2. [[2, 1, 0, 1], [1, 1, 0, 0], [0, 0, 0, 1::real]]"
  let ?m = "boundary_mask [[1, 1, 0, 1], [1, 1, 0, 0], [0, 0, 0, 1]] ''Polygon''"
  have s: "same_shape (?N ?m) (?D ?m)" by (simp add: same_shape_def)
  have d: "list_all (list_all (\<lambda>d. 0 \<le> d)) (?D ?m)" by simp
  have c: "(0::real) \<le> 10" by simp
  have t: "0 < ?N ?m ! 0 ! 3 \<and> thin_bbox (bbox_of (?N ?m) (?N ?m ! 0 ! 3))"
    by (simp add: bbox_of_def rows_with_def cols_with_def upt_rec)
  show ?thesis
    using s t normalize_boundary_distances_bounded[OF s d c, where i = 0 and j = 3] by auto
qed

section \<open>Properties of non-crop masking\<close>

lemma mask_band_nth:
  assumes "same_shape bdist labels_array" "i < length bdist" "j < length (hd bdist)"
  shows "mask_band bdist labels_array ! i ! j = mul_mask (bdist ! i ! j) (labels_array ! i ! j > 0)"
  unfolding mask_band_def
  by (rule map2_map2_nth[OF same_shape_dims[OF assms(1)] assms(2,3)])

lemma mul_mask_cases:
  "mul_mask v b = (if b then v else if is_finite v then Fin 0 else NaN)"
  by (cases v; cases b) simp_all

lemma remove_noncrop_result:
  assumes "xvars \<noteq> []" "same_shape (last xvars) labels_array"
  shows "\<exists>labels'. remove_noncrop fadd fdiv4 xvars labels_array =
           Inr (xvars[length xvars - 1 := mask_band (last xvars) labels_array], labels')"
  using assms by (simp add: remove_noncrop_def Let_def)

text \<open>
  C10 (as amended). When the image stack has a band and the label array has the shape
  of the last band, \<^verbatim>\<open>remove_noncrop\<close> returns a stack of the same length whose bands
  other than the last are the input bands. In the last band a pixel with a positive
  label keeps its value; a pixel with a background label becomes 0 when its value is
  finite, and NaN when its value is NaN or infinite.
\<close>

theorem remove_noncrop_frame:
  assumes "xvars \<noteq> []" "same_shape (last xvars) labels_array"
  shows "\<exists>xvars' labels'. remove_noncrop fadd fdiv4 xvars labels_array = Inr (xvars', labels') \<and>
           length xvars' = length xvars \<and>
           butlast xvars' = butlast xvars \<and>
           (\<forall>k. k + 1 < length xvars \<longrightarrow> xvars' ! k = xvars ! k) \<and>
           (\<forall>i j. i < length labels_array \<and> j < length (hd (last xvars)) \<longrightarrow>
              last xvars' ! i ! j =
                (if labels_array ! i ! j > 0 then last xvars ! i ! j
                 else if is_finite (last xvars ! i ! j) then Fin 0 else NaN))"
proof -
  define b where "b = mask_band (last xvars) labels_array"
  define xvars' where "xvars' = xvars[length xvars - 1 := b]"
  obtain labels' where r: "remove_noncrop fadd fdiv4 xvars labels_array = Inr (xvars', labels')"
    using remove_noncrop_result[OF assms] by (auto simp: xvars'_def b_def)
  have l: "length xvars' = length xvars" by (simp add: xvars'_def)
  have bl: "butlast xvars' = butlast xvars"
    by (simp add: xvars'_def butlast_list_update)
  have nth: "\<forall>k. k + 1 < length xvars \<longrightarrow> xvars' ! k = xvars ! k"
    by (simp add: xvars'_def)
  have la: "last xvars' = b"
    using assms(1) by (simp add: xvars'_def last_list_update)
  have len: "length (last xvars) = length labels_array"
    using assms(2) by (simp add: same_shape_def)
  have px: "\<forall>i j. i < length labels_array \<and> j < length (hd (last xvars)) \<longrightarrow>
      last xvars' ! i ! j =
        (if labels_array ! i ! j > 0 then last xvars ! i ! j
         else if is_finite (last xvars ! i ! j) then Fin 0 else NaN)"
    using mask_band_nth[OF assms(2)] by (simp add: la b_def len mul_mask_cases)
  show ?thesis using r l bl nth px by blast
qed

theorem remove_noncrop_frame_witness:
  "[[[Fin 1, Fin 2, Fin 3], [Fin 4, Fin 5, Fin 6]],
    [[Fin (1 / 2), Fin (1 / 4), Fin 1], [Fin 1, NaN, Fin (1 / 2)]]] \<noteq> [] \<and>
   same_shape (last [[[Fin 1, Fin 2, Fin 3], [Fin 4, Fin 5, Fin 6]],
                     [[Fin (1 / 2), Fin (1 / 4), Fin 1], [Fin 1, NaN, Fin (1 / 2)]]])
     [[0, 0, 1], [0, 0, 3::int]] \<and>
   (\<exists>xvars' labels'.
      remove_noncrop fl_add fl_div4
        [[[Fin 1, Fin 2, Fin 3], [Fin 4, Fin 5, Fin 6]],
         [[Fin (1 / 2), Fin (1 / 4), Fin 1], [Fin 1, NaN, Fin (1 / 2)]]]
        [[0, 0, 1], [0, 0, 3]]
        = Inr (xvars', labels') \<and>
      xvars' ! 0 = [[Fin 1, Fin 2, Fin 3], [Fin 4, Fin 5, Fin 6]] \<and>
      last xvars' ! 0 ! 1 = Fin 0 \<and> last xvars' ! 1 ! 1 = NaN \<and>
      last xvars' ! 1 ! 2 = Fin (1 / 2))"
proof -
  let ?x = "[[[Fin 1, Fin 2, Fin 3], [Fin 4, Fin 5, Fin 6]],
             [[Fin (1 / 2), Fin (1 / 4), Fin 1], [Fin 1, NaN, Fin (1 / 2)]]]"
  let ?l = "[[0, 0, 1], [0, 0, 3::int]]"
  have n: "?x \<noteq> []" by simp
  have s: "same_shape (last ?x) ?l" by (simp add: same_shape_def)
  obtain xvars' labels' where r: "remove_noncrop fl_add fl_div4 ?x ?l = Inr (xvars', labels')"
      "\<forall>k. k + 1 < length ?x \<longrightarrow> xvars' ! k = ?x ! k"
      "\<forall>i j. i < length ?l \<and> j < length (hd (last ?x)) \<longrightarrow>
         last xvars' ! i ! j =
           (if ?l ! i ! j > 0 then last ?x ! i ! j
            else if is_finite (last ?x ! i ! j) then Fin 0 else NaN)"
    using remove_noncrop_frame[OF n s, of fl_add fl_div4] by blast
  have "xvars' ! 0 = [[Fin 1, Fin 2, Fin 3], [Fin 4, Fin 5, Fin 6]]" using r(2) by simp
  moreover have "last xvars' ! 0 ! 1 = Fin 0" using r(3)[rule_format, of 0 1] by simp
  moreover have "last xvars' ! 1 ! 1 = NaN" using r(3)[rule_format, of 1 1] by simp
  moreover have "last xvars' ! 1 ! 2 = Fin (1 / 2)" using r(3)[rule_format, of 1 2] by simp
  ultimately show ?thesis using n s r(1) by blast
qed

text \<open>
  C10 (as stated) fails: a 5 x 5 band with a NaN at a pixel whose label is background.
  The product leaves NaN there, not 0.
\<close>

theorem remove_noncrop_nan_stays:
  "remove_noncrop fl_add fl_div4
     [[[NaN, Fin 0, Fin 0, Fin 0, Fin 0],
       [Fin 0, Fin (1 / 2), Fin (1 / 2), Fin (1 / 2), Fin 0],
       [Fin 0, Fin (1 / 2), Fin 1, Fin (1 / 2), Fin 0],
       [Fin 0, Fin (1 / 2), Fin (1 / 2), Fin (1 / 2), Fin 0],
       [Fin 0, Fin 0, Fin 0, Fin 0, Fin 0]]]
     [[0, 0, 0, 0, 0], [0, 1, 1, 1, 0], [0, 1, 1, 1, 0], [0, 1, 1, 1, 0], [0, 0, 0, 0, 0]]
   = Inr ([[[NaN, Fin 0, Fin 0, Fin 0, Fin 0],
            [Fin 0, Fin (1 / 2), Fin (1 / 2), Fin (1 / 2), Fin 0],
            [Fin 0, Fin (1 / 2), Fin 1, Fin (1 / 2), Fin 0],
            [Fin 0, Fin (1 / 2), Fin (1 / 2), Fin (1 / 2), Fin 0],
            [Fin 0, Fin 0, Fin 0, Fin 0, Fin 0]]],
          [[0, 0, 0, 0, 0], [0, 1, 1, 1, 0], [0, 1, 1, 1, 0], [0, 1, 1, 1, 0], [0, 0, 0, 0, 0]])"
  by code_simp

section \<open>Properties of the grid orchestrator\<close>

lemma generate_df_edges:
  assumes "generate E group_id transforms n_ts st row grid_edges int_idx = Inr st'"
  shows "df_edges st' = df_edges st" "merged_grids st' = merged_grids st"
  using assms
  by (auto simp: generate_def Let_def split: prod.splits if_splits option.splits)

lemma after_clip_df_edges:
  assumes "after_clip E df_grids group_id transforms n_ts st row grid_edges = Inr st'"
  shows "df_edges st' = df_edges st"
  using assms
  by (auto simp: after_clip_def Let_def split: if_splits sum.splits dest!: generate_df_edges(1))

lemma process_row_clip_ok:
  "clip E (df_edges st) (geometry row) = Inr ge \<Longrightarrow>
   process_row E df_grids group_id transforms n_ts st row
     = after_clip E df_grids group_id transforms n_ts st row ge"
  by (simp add: process_row_def)

lemma process_row_clip_fails:
  assumes "clip E (df_edges st) (geometry row) = Inl e"
  shows "process_row E df_grids group_id transforms n_ts st row =
     (case clip E (buffer0 E (df_edges st)) (geometry row) of
        Inl e' \<Rightarrow> Inl e'
      | Inr ge \<Rightarrow> after_clip E df_grids group_id transforms n_ts
                   (st\<lparr>df_edges := buffer0 E (df_edges st)\<rparr>) row ge)"
  using assms by (simp add: process_row_def Let_def)

text \<open>
  C9. When the clip of the boundary frame to a cell raises, the frame is replaced once by
  its zero-width buffer and the clip is tried again. If the second clip raises too, the
  exception ends the run. If it succeeds, the cell is processed with the repaired frame,
  the state after the cell holds the repaired frame (buffered once), and the remaining
  cells are processed from that state.
\<close>

theorem clip_failure_repair_and_retry:
  assumes "clip E (df_edges st) (geometry row) = Inl e"
  shows "(\<forall>e'. clip E (buffer0 E (df_edges st)) (geometry row) = Inl e' \<longrightarrow>
            grid_loop E df_grids group_id transforms n_ts (row # rows) st = Inl e') \<and>
         (\<forall>ge. clip E (buffer0 E (df_edges st)) (geometry row) = Inr ge \<longrightarrow>
            process_row E df_grids group_id transforms n_ts st row =
              after_clip E df_grids group_id transforms n_ts
                (st\<lparr>df_edges := buffer0 E (df_edges st)\<rparr>) row ge \<and>
            (\<forall>st'. process_row E df_grids group_id transforms n_ts st row = Inr st' \<longrightarrow>
               df_edges st' = buffer0 E (df_edges st) \<and>
               grid_loop E df_grids group_id transforms n_ts (row # rows) st =
                 grid_loop E df_grids group_id transforms n_ts rows st'))"
proof (intro conjI allI impI)
  fix e' assume "clip E (buffer0 E (df_edges st)) (geometry row) = Inl e'"
  then show "grid_loop E df_grids group_id transforms n_ts (row # rows) st = Inl e'"
    by (simp add: process_row_clip_fails[OF assms])
next
  fix ge assume c: "clip E (buffer0 E (df_edges st)) (geometry row) = Inr ge"
  show p: "process_row E df_grids group_id transforms n_ts st row =
      after_clip E df_grids group_id transforms n_ts
        (st\<lparr>df_edges := buffer0 E (df_edges st)\<rparr>) row ge"
    by (simp add: process_row_clip_fails[OF assms] c)
  fix st' assume r: "process_row E df_grids group_id transforms n_ts st row = Inr st'"
  show "df_edges st' = buffer0 E (df_edges st)"
    using after_clip_df_edges[OF r[unfolded p]] by simp
  show "grid_loop E df_grids group_id transforms n_ts (row # rows) st =
      grid_loop E df_grids group_id transforms n_ts rows st'"
    by (simp add: r)
qed

theorem clip_failure_repair_and_retry_witness:
  "clip \<lparr>clip = (\<lambda>f g. if f = (0::nat) then Inl (Exn ''TopologyException'') else Inr f),
          clip_many = (\<lambda>f gs. Inr f), buffer0 = (\<lambda>f. 1), drop_empty = (\<lambda>f. f),
          frame_empty = (\<lambda>f. False), grids_as_edges = 1, sindex_intersection = (\<lambda>f. [0]),
          image_shape = (\<lambda>f idx. (8, 8)), py_int = (\<lambda>s. Some 2021)\<rparr> 0 (0::nat)
     = Inl (Exn ''TopologyException'') \<and>
   grid_loop \<lparr>clip = (\<lambda>f g. if f = (0::nat) then Inl (Exn ''TopologyException'') else Inr f),
          clip_many = (\<lambda>f gs. Inr f), buffer0 = (\<lambda>f. 1), drop_empty = (\<lambda>f. f),
          frame_empty = (\<lambda>f. False), grids_as_edges = 1, sindex_intersection = (\<lambda>f. [0]),
          image_shape = (\<lambda>f idx. (8, 8)), py_int = (\<lambda>s. Some 2021)\<rparr>
       [\<lparr>grid = GridInt 0, geometry = 0::nat\<rparr>] (Some ''r_2021'') [''none''] 2
       [\<lparr>grid = GridInt 0, geometry = 0\<rparr>]
       \<lparr>df_edges = 0, merged_grids = [], files = Map.empty\<rparr>
     = Inr \<lparr>df_edges = 1, merged_grids = [],
            files = [''data_r_2021_0_none.pt'' \<mapsto> ''r_2021_0_none'']\<rparr> \<and>
   grid_loop \<lparr>clip = (\<lambda>f g. if f = (0::nat) then Inl (Exn ''TopologyException'') else Inr f),
          clip_many = (\<lambda>f gs. Inr f), buffer0 = (\<lambda>f. 0), drop_empty = (\<lambda>f. f),
          frame_empty = (\<lambda>f. False), grids_as_edges = 1, sindex_intersection = (\<lambda>f. [0]),
          image_shape = (\<lambda>f idx. (8, 8)), py_int = (\<lambda>s. Some 2021)\<rparr>
       [\<lparr>grid = GridInt 0, geometry = 0::nat\<rparr>] (Some ''r_2021'') [''none''] 2
       [\<lparr>grid = GridInt 0, geometry = 0\<rparr>]
       \<lparr>df_edges = 0, merged_grids = [], files = Map.empty\<rparr>
     = Inl (Exn ''TopologyException'')"
proof -
  let ?E = "\<lambda>b. \<lparr>clip = (\<lambda>f g. if f = (0::nat) then Inl (Exn ''TopologyException'') else Inr f),
          clip_many = (\<lambda>f gs. Inr f), buffer0 = (\<lambda>f. b), drop_empty = (\<lambda>f. f),
          frame_empty = (\<lambda>f. False), grids_as_edges = 1, sindex_intersection = (\<lambda>f. [0]),
          image_shape = (\<lambda>f idx. (8::nat, 8::nat)), py_int = (\<lambda>s. Some (2021::int))\<rparr>"
  let ?row = "\<lparr>grid = GridInt 0, geometry = 0::nat\<rparr>"
  let ?st = "\<lparr>df_edges = 0::nat, merged_grids = [], files = Map.empty\<rparr>"
  have f: "clip (?E b) (df_edges ?st) (geometry ?row) = Inl (Exn ''TopologyException'')" for b
    by simp
  have a: "after_clip (?E 1) [?row] (Some ''r_2021'') [''none''] 2 (?st\<lparr>df_edges := 1\<rparr>) ?row 1
      = Inr \<lparr>df_edges = 1, merged_grids = [],
             files = [''data_r_2021_0_none.pt'' \<mapsto> ''r_2021_0_none'']\<rparr>"
    by (simp add: after_clip_def generate_def is_grid_processed_def startswith_def
        record_matches_def train_id_plain_def train_path_def save_and_update_def
        str_int_def str_nat.simps digit_char_def)
  show ?thesis
    using clip_failure_repair_and_retry[OF f[of 1], of "[?row]" "Some ''r_2021''" "[''none'']" 2 "[]"]
      clip_failure_repair_and_retry[OF f[of 0], of "[?row]" "Some ''r_2021''" "[''none'']" 2 "[]"]
      a
    by simp
qed

lemma after_clip_merged_skip:
  assumes "\<not> frame_empty E (drop_empty E ge)"
    "sort (sindex_intersection E (drop_empty E ge)) = idx" "1 < length idx"
    "list_ex (\<lambda>rowg. rowg \<in> set (merged_grids st)) (map (\<lambda>k. grid (df_grids ! k)) idx)"
  shows "after_clip E df_grids group_id transforms n_ts st row ge = Inr st"
  using assms by (simp add: after_clip_def Let_def)

lemma after_clip_merged_record:
  assumes "\<not> frame_empty E (drop_empty E ge)"
    "sort (sindex_intersection E (drop_empty E ge)) = idx" "1 < length idx"
    "\<not> list_ex (\<lambda>rowg. rowg \<in> set (merged_grids st)) (map (\<lambda>k. grid (df_grids ! k)) idx)"
    "clip_many E (df_edges st) (map (\<lambda>k. geometry (df_grids ! k)) idx) = Inr gu"
  shows "after_clip E df_grids group_id transforms n_ts st row ge =
     generate E group_id transforms n_ts (st\<lparr>merged_grids := merged_grids st @ [grid row]\<rparr>)
       row gu idx"
  using assms by (simp add: after_clip_def Let_def)

lemma generate_writes:
  assumes "image_shape E gu idx = (height, width)" "5 \<le> height" "5 \<le> width"
    "\<not> is_grid_processed (files st) transforms group_id (grid row) n_ts"
    "case group_id of None \<Rightarrow> True | Some s \<Rightarrow> py_int E (last_piece s) \<noteq> None"
  shows "generate E group_id transforms n_ts st row gu idx =
     Inr (st\<lparr>files := save_aug_loop transforms group_id (grid row) n_ts (files st)\<rparr>)"
  using assms by (auto simp: generate_def split: option.splits)

text \<open>
  C2 (as amended). Two cells whose clipped boundaries both intersect the cells at
  positions 0 and 1, an empty merged list, and a first cell that passes the size test and
  the persistence test. The first cell is re-clipped to both cells and only its own
  identifier is appended to \<^verbatim>\<open>merged_grids\<close>; its samples are written. The second cell
  finds the first cell's identifier among its intersecting cells and is skipped: after the
  run the merged list holds the first identifier only and the files written are those of
  the first cell.
\<close>

theorem two_cells_one_boundary:
  assumes ca: "clip E (df_edges st) (geometry A) = Inr ga"
    and cb: "clip E (df_edges st) (geometry B) = Inr gb"
    and na: "\<not> frame_empty E (drop_empty E ga)"
    and nb: "\<not> frame_empty E (drop_empty E gb)"
    and ia: "sort (sindex_intersection E (drop_empty E ga)) = [0, 1]"
    and ib: "sort (sindex_intersection E (drop_empty E gb)) = [0, 1]"
    and m: "merged_grids st = []"
    and cu: "clip_many E (df_edges st) [geometry A, geometry B] = Inr gu"
    and sz: "image_shape E gu [0, 1] = (height, width)" "5 \<le> height" "5 \<le> width"
    and np: "\<not> is_grid_processed (files st) transforms group_id (grid A) n_ts"
    and yr: "case group_id of None \<Rightarrow> True | Some s \<Rightarrow> py_int E (last_piece s) \<noteq> None"
  shows "process_row E [A, B] group_id transforms n_ts st A =
           Inr (st\<lparr>merged_grids := [grid A],
                    files := save_aug_loop transforms group_id (grid A) n_ts (files st)\<rparr>) \<and>
         grid_loop E [A, B] group_id transforms n_ts [A, B] st =
           Inr (st\<lparr>merged_grids := [grid A],
                    files := save_aug_loop transforms group_id (grid A) n_ts (files st)\<rparr>)"
proof -
  let ?st1 = "st\<lparr>merged_grids := [grid A]\<rparr>"
  let ?st2 = "st\<lparr>merged_grids := [grid A],
      files := save_aug_loop transforms group_id (grid A) n_ts (files st)\<rparr>"
  have "after_clip E [A, B] group_id transforms n_ts st A ga =
      generate E group_id transforms n_ts (st\<lparr>merged_grids := merged_grids st @ [grid A]\<rparr>)
        A gu [0, 1]"
    using na ia by (rule after_clip_merged_record) (simp_all add: m cu)
  also have "\<dots> = Inr (?st1\<lparr>files := save_aug_loop transforms group_id (grid A) n_ts (files ?st1)\<rparr>)"
    unfolding m append_Nil using sz by (rule generate_writes) (simp_all add: np yr)
  finally have a: "process_row E [A, B] group_id transforms n_ts st A = Inr ?st2"
    by (simp add: process_row_clip_ok[OF ca])
  have cb': "clip E (df_edges ?st2) (geometry B) = Inr gb" using cb by simp
  have "after_clip E [A, B] group_id transforms n_ts ?st2 B gb = Inr ?st2"
    using nb ib by (rule after_clip_merged_skip) simp_all
  then have b: "process_row E [A, B] group_id transforms n_ts ?st2 B = Inr ?st2"
    by (simp add: process_row_clip_ok[OF cb'])
  show ?thesis using a b by simp
qed

theorem two_cells_one_boundary_witness:
  "grid_loop \<lparr>clip = (\<lambda>f g. Inr f), clip_many = (\<lambda>f gs. Inr f), buffer0 = (\<lambda>f. f),
          drop_empty = (\<lambda>f. f), frame_empty = (\<lambda>f. False), grids_as_edges = 1::nat,
          sindex_intersection = (\<lambda>f. [1, 0]), image_shape = (\<lambda>f idx. (8, 8)),
          py_int = (\<lambda>s. Some 2021)\<rparr>
     [\<lparr>grid = GridInt 10, geometry = 0::nat\<rparr>, \<lparr>grid = GridInt 11, geometry = 1\<rparr>] (Some ''r_2021'') [''none''] 2
     [\<lparr>grid = GridInt 10, geometry = 0::nat\<rparr>, \<lparr>grid = GridInt 11, geometry = 1\<rparr>]
     \<lparr>df_edges = 1, merged_grids = [], files = Map.empty\<rparr>
   = Inr \<lparr>df_edges = 1, merged_grids = [GridInt 10],
          files = [''data_r_2021_10_none.pt'' \<mapsto> ''r_2021_10_none'']\<rparr>"
proof -
  let ?E = "\<lparr>clip = (\<lambda>f g. Inr f), clip_many = (\<lambda>f gs. Inr f), buffer0 = (\<lambda>f. f),
          drop_empty = (\<lambda>f. f), frame_empty = (\<lambda>f. False), grids_as_edges = 1::nat,
          sindex_intersection = (\<lambda>f. [1, 0]), image_shape = (\<lambda>f idx. (8, 8)),
          py_int = (\<lambda>s. Some 2021)\<rparr>"
  let ?A = "\<lparr>grid = GridInt 10, geometry = 0::nat\<rparr>"
  let ?B = "\<lparr>grid = GridInt 11, geometry = 1::nat\<rparr>"
  let ?st = "\<lparr>df_edges = 1::nat, merged_grids = [], files = Map.empty\<rparr>"
  have s: "sort [1, 0::nat] = [0, 1]" by (simp add: sort_key_def)
  have "grid_loop ?E [?A, ?B] (Some ''r_2021'') [''none''] 2 [?A, ?B] ?st =
      Inr (?st\<lparr>merged_grids := [grid ?A],
                files := save_aug_loop [''none''] (Some ''r_2021'') (grid ?A) 2 (files ?st)\<rparr>)"
    by (rule two_cells_one_boundary[where ga = 1 and gb = 1 and gu = 1 and height = 8
          and width = 8, THEN conjunct2])
       (simp_all add: s is_grid_processed_def startswith_def record_matches_def)
  then show ?thesis
    by (simp add: startswith_def train_id_plain_def train_path_def save_and_update_def
        str_int_def str_nat.simps digit_char_def)
qed

text \<open>
  C2 (as stated) fails. Three cells in a row (identifiers 10, 11, 12) and one boundary
  across them: clipped to the first cell it intersects the cells at positions 0 and 1,
  clipped to the second all three, clipped to the third the cells at positions 1 and 2.
  The first cell is written and only its identifier 10 is recorded, not 11; the second
  cell is skipped; the third cell finds neither 11 nor 12 in the merged list and is
  written too. The run persists two samples for the one boundary.
\<close>

theorem three_cells_two_samples:
  "grid_loop \<lparr>clip = (\<lambda>f g. Inr (10 + g)), clip_many = (\<lambda>f gs. Inr 20), buffer0 = (\<lambda>f. f),
          drop_empty = (\<lambda>f. f), frame_empty = (\<lambda>f. False), grids_as_edges = 1::nat,
          sindex_intersection = (\<lambda>f. if f = 10 then [0, 1] else if f = 11 then [0, 1, 2] else [1, 2]),
          image_shape = (\<lambda>f idx. (8, 8)), py_int = (\<lambda>s. Some 2021)\<rparr>
     [\<lparr>grid = GridInt 10, geometry = 0::nat\<rparr>, \<lparr>grid = GridInt 11, geometry = 1\<rparr>,
      \<lparr>grid = GridInt 12, geometry = 2\<rparr>] (Some ''r_2021'') [''none''] 2
     [\<lparr>grid = GridInt 10, geometry = 0::nat\<rparr>, \<lparr>grid = GridInt 11, geometry = 1\<rparr>,
      \<lparr>grid = GridInt 12, geometry = 2\<rparr>]
     \<lparr>df_edges = 1, merged_grids = [], files = Map.empty\<rparr>
   = Inr \<lparr>df_edges = 1, merged_grids = [GridInt 10, GridInt 12],
          files = [''data_r_2021_10_none.pt'' \<mapsto> ''r_2021_10_none'',
                   ''data_r_2021_12_none.pt'' \<mapsto> ''r_2021_12_none'']\<rparr> \<and>
   map (\<lambda>k. grid ([\<lparr>grid = GridInt 10, geometry = 0::nat\<rparr>, \<lparr>grid = GridInt 11, geometry = 1\<rparr>,
      \<lparr>grid = GridInt 12, geometry = 2\<rparr>] ! k))
     (sort (sindex_intersection \<lparr>clip = (\<lambda>f g. Inr (10 + g)), clip_many = (\<lambda>f gs. Inr 20), buffer0 = (\<lambda>f. f),
          drop_empty = (\<lambda>f. f), frame_empty = (\<lambda>f. False), grids_as_edges = 1::nat,
          sindex_intersection = (\<lambda>f. if f = 10 then [0, 1] else if f = 11 then [0, 1, 2] else [1, 2]),
          image_shape = (\<lambda>f idx. (8, 8)), py_int = (\<lambda>s. Some 2021)\<rparr> (10::nat)))
   = [GridInt 10, GridInt 11]"
  by (simp add: process_row_def after_clip_def generate_def is_grid_processed_def startswith_def
      record_matches_def train_id_plain_def train_path_def save_and_update_def
      str_int_def str_nat.simps digit_char_def sort_key_def)

end
